theory Spec2Isabelle
  imports Main
begin

section \<open>Webhook dataloaders (saleor/graphql/webhook/dataloaders.py)\<close>

text \<open>
  The module defines four batch loaders. Each \<open>batch_load\<close> receives the ordered key
  sequence of one batch and returns one result per key. The collaborators the module
  imports (the ORM queries, the tax utilities, the subscription payload generator, the
  other loaders) are not part of the module: they are parameters of the model, and the
  theorems hold for every choice of them.
\<close>

subsection \<open>PayloadByIdLoader\<close>

text \<open>
  \<open>in_bulk(keys)\<close> yields a dictionary from ids to the records that exist. The loader
  reads it once per key: \<open>payloads[k].get_payload() if payloads.get(k) else None\<close>.
  A model instance is truthy, so the test is on the presence of the key.
\<close>

definition PayloadByIdLoader_batch_load ::
  "('k list \<Rightarrow> ('k \<rightharpoonup> 'r)) \<Rightarrow> ('r \<Rightarrow> 'p) \<Rightarrow> 'k list \<Rightarrow> 'p option list" where
  "PayloadByIdLoader_batch_load in_bulk get_payload keys =
     (let payloads = in_bulk keys
      in map (\<lambda>payload_id.
                case payloads payload_id of
                  Some r \<Rightarrow> Some (get_payload r)
                | None \<Rightarrow> None) keys)"

subsection \<open>Grouping loaders: WebhookEventsByWebhookIdLoader, WebhooksByAppIdLoader\<close>

text \<open>
  The fields the module reads of a \<open>WebhookEvent\<close> and of a \<open>Webhook\<close> row. A
  subscription query is a nullable text column.
\<close>

record WebhookEvent =
  webhook_id :: int
  event_type :: string

record Webhook =
  app_id :: int
  subscription_query :: "string option"

text \<open>
  \<open>m[k].append(r)\<close> on a \<open>defaultdict(list)\<close>: a missing key starts from the empty list.
\<close>

definition defaultdict_append :: "('k \<rightharpoonup> 'r list) \<Rightarrow> 'k \<Rightarrow> 'r \<Rightarrow> ('k \<rightharpoonup> 'r list)" where
  "defaultdict_append m k r =
     m(k \<mapsto> (case m k of None \<Rightarrow> [] | Some rs \<Rightarrow> rs) @ [r])"

text \<open>\<open>m.get(k, [])\<close>.\<close>

definition get_or_empty :: "('k \<rightharpoonup> 'r list) \<Rightarrow> 'k \<Rightarrow> 'r list" where
  "get_or_empty m k = (case m k of None \<Rightarrow> [] | Some rs \<Rightarrow> rs)"

text \<open>
  The queryset \<open>WebhookEvent.objects.filter(webhook_id__in=keys)\<close> is the parameter
  \<open>fetch\<close>; the loop appends each row to the list of its \<open>webhook_id\<close>.
\<close>

fun webhook_events_map_loop ::
  "(int \<rightharpoonup> WebhookEvent list) \<Rightarrow> WebhookEvent list \<Rightarrow> (int \<rightharpoonup> WebhookEvent list)" where
  "webhook_events_map_loop m [] = m"
| "webhook_events_map_loop m (event # events) =
     webhook_events_map_loop (defaultdict_append m (webhook_id event) event) events"

definition WebhookEventsByWebhookIdLoader_batch_load ::
  "(int list \<Rightarrow> WebhookEvent list) \<Rightarrow> int list \<Rightarrow> WebhookEvent list list" where
  "WebhookEventsByWebhookIdLoader_batch_load fetch keys =
     (let webhook_events = fetch keys;
          webhook_events_map = webhook_events_map_loop Map.empty webhook_events
      in map (\<lambda>k. get_or_empty webhook_events_map k) keys)"

fun webhooks_by_app_map_loop ::
  "(int \<rightharpoonup> Webhook list) \<Rightarrow> Webhook list \<Rightarrow> (int \<rightharpoonup> Webhook list)" where
  "webhooks_by_app_map_loop m [] = m"
| "webhooks_by_app_map_loop m (w # ws) =
     webhooks_by_app_map_loop (defaultdict_append m (app_id w) w) ws"

definition WebhooksByAppIdLoader_batch_load ::
  "(int list \<Rightarrow> Webhook list) \<Rightarrow> int list \<Rightarrow> Webhook list list" where
  "WebhooksByAppIdLoader_batch_load fetch keys =
     (let webhooks = fetch keys;
          webhooks_by_app_map = webhooks_by_app_map_loop Map.empty webhooks
      in map (\<lambda>k. get_or_empty webhooks_by_app_map k) keys)"

subsection \<open>PregeneratedCheckoutTaxPayloadsByCheckoutTokenLoader: data\<close>

text \<open>
  A promise of a collaborator is pending, rejected or fulfilled. The reason of a
  collaborator's rejection is opaque to this module (type \<open>unit\<close>); the promise that
  \<open>batch_load\<close> returns is rejected with one of the errors below.
\<close>

datatype ('e, 'a) promise = Pending | Rejected 'e | Fulfilled 'a

datatype error =
  AttributeError  \<comment> \<open>\<open>app.id\<close> read on \<open>None\<close>\<close>
| KeyError  \<comment> \<open>\<open>apps_map[app_id]\<close> on a missing key\<close>
| DependencyFetchError  \<comment> \<open>one of the three \<open>load_many\<close> promises was rejected\<close>
| GenerationError  \<comment> \<open>a payload promise was rejected\<close>

datatype TaxCalculationStrategy = FLAT_RATES | TAX_APP

record App =
  id' :: int
  "identifier" :: "string option"

record 'tok Checkout =
  pk :: 'tok
  price_expiration :: int

record 'tok CheckoutInfo =
  checkout :: "'tok Checkout"

text \<open>
  A generated payload is \<open>None\<close> or a dictionary; \<open>if payload:\<close> is false for \<open>None\<close>
  and for the empty dictionary.
\<close>

datatype 'v payload = PNone | PDict "(string \<times> 'v) list"

fun truthy_payload :: "'v payload \<Rightarrow> bool" where
  "truthy_payload PNone = False"
| "truthy_payload (PDict kvs) = (kvs \<noteq> [])"

text \<open>Truth value of an optional string: \<open>None\<close> and \<open>""\<close> are false.\<close>

fun truthy_str :: "string option \<Rightarrow> bool" where
  "truthy_str None = False"
| "truthy_str (Some s) = (s \<noteq> [])"

text \<open>
  One call of \<open>generate_payload_promise_from_subscription\<close>: its arguments (the event
  type and the request context are the same for every call and are left out), and the
  three values \<open>store_payload\<close> captures as default arguments when the call is issued.
\<close>

record 'tok generation_call =
  subscribable_object :: "'tok Checkout"
  call_subscription_query :: string
  call_app :: App
  checkout_token :: string
  call_app_id :: int
  query_hash :: string

text \<open>
  The collaborators of \<open>batch_load\<close>. \<open>timezone_now i\<close> is the clock read while the
  \<open>i\<close>-th checkout is evaluated (the source reads it once per checkout).
  The payload generator is indexed by the position of the call in issue order, so two
  calls with equal arguments may settle differently; \<open>completion_time\<close> gives the time
  at which the promise of that call settles, so the calls may complete in any order.
\<close>

record ('tok, 'x, 'li, 'tc, 'ctc, 'v) collaborators =
  get_webhooks_for_event :: "Webhook list"
  get_tax_configuration_for_checkout ::
    "('tok, 'x) CheckoutInfo_scheme \<Rightarrow> 'li \<Rightarrow> 'tc \<times> 'ctc"
  get_tax_calculation_strategy :: "'tc \<Rightarrow> 'ctc \<Rightarrow> TaxCalculationStrategy"
  get_tax_app_id :: "'tc \<Rightarrow> 'ctc \<Rightarrow> string option"
  get_subscription_query_hash :: "string \<Rightarrow> string"
  str :: "'tok \<Rightarrow> string"
  timezone_now :: "nat \<Rightarrow> int"
  generate_payload_promise_from_subscription ::
    "nat \<Rightarrow> 'tok generation_call \<Rightarrow> (unit, 'v payload) promise"
  completion_time :: "nat \<Rightarrow> nat"
  CheckoutInfoByCheckoutTokenLoader_load_many ::
    "'tok list \<Rightarrow> (unit, ('tok, 'x) CheckoutInfo_scheme list) promise"
  CheckoutLinesInfoByCheckoutTokenLoader_load_many ::
    "'tok list \<Rightarrow> (unit, 'li list) promise"
  AppByIdLoader_load_many :: "int list \<Rightarrow> (unit, App option list) promise"

type_synonym 'v nested_payloads = "int \<rightharpoonup> (string \<rightharpoonup> 'v payload)"

type_synonym 'v results = "string \<rightharpoonup> 'v nested_payloads"

subsection \<open>PregeneratedCheckoutTaxPayloadsByCheckoutTokenLoader: generate_payloads\<close>

text \<open>
  \<open>apps_map = {app.id: app for app in apps}\<close>: a later app with the same id replaces
  an earlier one, and a \<open>None\<close> among the loaded apps raises.
\<close>

fun apps_map_loop :: "(int \<rightharpoonup> App) \<Rightarrow> App option list \<Rightarrow> error + (int \<rightharpoonup> App)" where
  "apps_map_loop m [] = Inr m"
| "apps_map_loop m (None # apps) = Inl AttributeError"
| "apps_map_loop m (Some app # apps) = apps_map_loop (m(id' app \<mapsto> app)) apps"

text \<open>
  The call issued for one selected webhook of one checkout: the arguments of
  \<open>generate_payload_promise_from_subscription\<close>, and \<open>checkout_token = str(checkout.pk)\<close>,
  \<open>app_id\<close> and \<open>query_hash\<close> as \<open>store_payload\<close> captures them.
\<close>

definition issue_call ::
  "('tok, 'x, 'li, 'tc, 'ctc, 'v) collaborators \<Rightarrow> 'tok Checkout \<Rightarrow> Webhook \<Rightarrow> App \<Rightarrow>
   string \<Rightarrow> 'tok generation_call" where
  "issue_call env co webhook app query =
     \<lparr>subscribable_object = co,
      call_subscription_query = query,
      call_app = app,
      checkout_token = str env (pk co),
      call_app_id = app_id webhook,
      query_hash = get_subscription_query_hash env query\<rparr>"

text \<open>
  The loop over the webhooks for one eligible checkout. It returns the calls it issued,
  in issue order, and the error that stopped it, if any: the calls issued before a
  \<open>KeyError\<close> have been issued.
\<close>

fun webhooks_loop ::
  "('tok, 'x, 'li, 'tc, 'ctc, 'v) collaborators \<Rightarrow> (int \<rightharpoonup> App) \<Rightarrow> 'tok Checkout \<Rightarrow>
   string option \<Rightarrow> Webhook list \<Rightarrow> 'tok generation_call list \<times> error option" where
  "webhooks_loop env apps_map co tax_app_identifier [] = ([], None)"
| "webhooks_loop env apps_map co tax_app_identifier (webhook # webhooks) =
     (case apps_map (app_id webhook) of
        None \<Rightarrow> ([], Some KeyError)
      | Some app \<Rightarrow>
          (let (calls, err) = webhooks_loop env apps_map co tax_app_identifier webhooks
           in case subscription_query webhook of
                None \<Rightarrow> (calls, err)
              | Some query \<Rightarrow>
                  if query \<noteq> [] \<and>
                     (\<not> truthy_str tax_app_identifier \<or> identifier app = tax_app_identifier)
                  then (issue_call env co webhook app query # calls, err)
                  else (calls, err)))"

text \<open>The body of the loop over the checkouts, for the checkout at position \<open>i\<close>.\<close>

definition evaluate_checkout ::
  "('tok, 'x, 'li, 'tc, 'ctc, 'v) collaborators \<Rightarrow> (int \<rightharpoonup> App) \<Rightarrow> nat \<Rightarrow>
   ('tok, 'x) CheckoutInfo_scheme \<Rightarrow> 'li \<Rightarrow> 'tok generation_call list \<times> error option" where
  "evaluate_checkout env apps_map i checkout_info lines_info =
     (case get_tax_configuration_for_checkout env checkout_info lines_info of
        (tax_configuration, country_tax_configuration) \<Rightarrow>
          (let tax_strategy =
                 get_tax_calculation_strategy env tax_configuration country_tax_configuration
           in if tax_strategy = TAX_APP \<and>
                 price_expiration (checkout checkout_info) \<le> timezone_now env i
              then webhooks_loop env apps_map (checkout checkout_info)
                     (get_tax_app_id env tax_configuration country_tax_configuration)
                     (get_webhooks_for_event env)
              else ([], None)))"

fun checkouts_loop ::
  "('tok, 'x, 'li, 'tc, 'ctc, 'v) collaborators \<Rightarrow> (int \<rightharpoonup> App) \<Rightarrow> nat \<Rightarrow>
   (('tok, 'x) CheckoutInfo_scheme \<times> 'li) list \<Rightarrow> 'tok generation_call list \<times> error option" where
  "checkouts_loop env apps_map i [] = ([], None)"
| "checkouts_loop env apps_map i ((checkout_info, lines_info) # rest) =
     (case evaluate_checkout env apps_map i checkout_info lines_info of
        (calls, Some e) \<Rightarrow> (calls, Some e)
      | (calls, None) \<Rightarrow>
          (let (calls', err) = checkouts_loop env apps_map (Suc i) rest
           in (calls @ calls', err)))"

text \<open>Reading a key of a \<open>defaultdict\<close> whose default is an empty dictionary.\<close>

definition defaultdict_get :: "('k \<rightharpoonup> ('a \<rightharpoonup> 'b)) \<Rightarrow> 'k \<Rightarrow> ('a \<rightharpoonup> 'b)" where
  "defaultdict_get m k = (case m k of None \<Rightarrow> Map.empty | Some d \<Rightarrow> d)"

text \<open>\<open>results[checkout_token][app_id][query_hash] = payload\<close>, if the payload is truthy.\<close>

definition store_payload ::
  "'v results \<Rightarrow> 'v payload \<Rightarrow> string \<Rightarrow> int \<Rightarrow> string \<Rightarrow> 'v results" where
  "store_payload results payload tok aid qh =
     (if truthy_payload payload
      then (let by_app = defaultdict_get results tok;
                by_hash = defaultdict_get by_app aid
            in results(tok \<mapsto> by_app(aid \<mapsto> by_hash(qh \<mapsto> payload))))
      else results)"

definition return_payloads ::
  "('tok, 'x, 'li, 'tc, 'ctc, 'v) collaborators \<Rightarrow> 'v results \<Rightarrow> 'tok list \<Rightarrow>
   'v nested_payloads list" where
  "return_payloads env results keys =
     map (\<lambda>checkout_token. defaultdict_get results (str env checkout_token)) keys"

text \<open>
  The outcome of every issued call, in issue order, and the \<open>store_payload\<close> callbacks
  that run, in the order in which their promises are fulfilled: each callback was
  registered with the three values captured when its call was issued.
\<close>

definition outcomes ::
  "('tok, 'x, 'li, 'tc, 'ctc, 'v) collaborators \<Rightarrow> 'tok generation_call list \<Rightarrow>
   (unit, 'v payload) promise list" where
  "outcomes env promises =
     map (\<lambda>(i, call). generate_payload_promise_from_subscription env i call)
       (enumerate 0 promises)"

definition completed_stores ::
  "('tok, 'x, 'li, 'tc, 'ctc, 'v) collaborators \<Rightarrow> 'tok generation_call list \<Rightarrow>
   ('tok generation_call \<times> 'v payload) list" where
  "completed_stores env promises =
     List.map_filter
       (\<lambda>(i, call). case generate_payload_promise_from_subscription env i call of
                      Fulfilled payload \<Rightarrow> Some (call, payload)
                    | _ \<Rightarrow> None)
       (sort_key (\<lambda>(i, call). completion_time env i) (enumerate 0 promises))"

fun run_stores ::
  "'v results \<Rightarrow> ('tok generation_call \<times> 'v payload) list \<Rightarrow> 'v results" where
  "run_stores results [] = results"
| "run_stores results ((call, payload) # rest) =
     run_stores
       (store_payload results payload
          (checkout_token call) (call_app_id call) (query_hash call)) rest"

text \<open>
  \<open>Promise.all(promises).then(return_payloads)\<close>: rejected as soon as one payload
  promise is rejected, pending while one is pending, and otherwise fulfilled with the
  projection of the results that the callbacks have filled.
\<close>

definition Promise_all_then_return_payloads ::
  "('tok, 'x, 'li, 'tc, 'ctc, 'v) collaborators \<Rightarrow> 'tok generation_call list \<Rightarrow> 'tok list \<Rightarrow>
   (error, 'v nested_payloads list) promise" where
  "Promise_all_then_return_payloads env promises keys =
     (if Rejected () \<in> set (outcomes env promises) then Rejected GenerationError
      else if Pending \<in> set (outcomes env promises) then Pending
      else Fulfilled
             (return_payloads env (run_stores Map.empty (completed_stores env promises)) keys))"

text \<open>
  \<open>generate_payloads\<close> returns the calls it issued and the state of the promise it
  returns. An exception raised in it rejects that promise.
\<close>

definition generate_payloads ::
  "('tok, 'x, 'li, 'tc, 'ctc, 'v) collaborators \<Rightarrow> 'tok list \<Rightarrow>
   ('tok, 'x) CheckoutInfo_scheme list \<times> 'li list \<times> App option list \<Rightarrow>
   'tok generation_call list \<times> (error, 'v nested_payloads list) promise" where
  "generate_payloads env keys data =
     (case data of (checkouts_info, checkout_lines_info, apps) \<Rightarrow>
        (case apps_map_loop Map.empty apps of
           Inl e \<Rightarrow> ([], Rejected e)
         | Inr apps_map \<Rightarrow>
             (case checkouts_loop env apps_map 0 (zip checkouts_info checkout_lines_info) of
                (promises, Some e) \<Rightarrow> (promises, Rejected e)
              | (promises, None) \<Rightarrow>
                  (promises, Promise_all_then_return_payloads env promises keys))))"

text \<open>
  The key of a call in the nested result, and the payload the nested result holds under
  a key (checkout token, app id, query hash).
\<close>

definition call_triple :: "'tok generation_call \<Rightarrow> string \<times> int \<times> string" where
  "call_triple call = (checkout_token call, call_app_id call, query_hash call)"

definition payload_at :: "'v results \<Rightarrow> string \<times> int \<times> string \<Rightarrow> 'v payload option" where
  "payload_at results k =
     (case k of (tok, aid, qh) \<Rightarrow> defaultdict_get (defaultdict_get results tok) aid qh)"

subsection \<open>PregeneratedCheckoutTaxPayloadsByCheckoutTokenLoader: batch_load\<close>

text \<open>
  \<open>Promise.all([checkouts_info, lines, apps]).then(generate_payloads)\<close>: the handler
  runs on the three fulfilled values; a rejected fetch rejects the result and a pending
  one leaves it pending, without the handler having run.
\<close>

definition batch_load ::
  "('tok, 'x, 'li, 'tc, 'ctc, 'v) collaborators \<Rightarrow> 'tok list \<Rightarrow>
   'tok generation_call list \<times> (error, 'v nested_payloads list) promise" where
  "batch_load env keys =
     (let webhooks = get_webhooks_for_event env;
          apps_ids = map app_id webhooks;
          checkouts_info = CheckoutInfoByCheckoutTokenLoader_load_many env keys;
          lines = CheckoutLinesInfoByCheckoutTokenLoader_load_many env keys;
          apps = AppByIdLoader_load_many env apps_ids
      in case (checkouts_info, lines, apps) of
           (Fulfilled c, Fulfilled l, Fulfilled a) \<Rightarrow> generate_payloads env keys (c, l, a)
         | _ \<Rightarrow>
             if checkouts_info = Rejected () \<or> lines = Rejected () \<or> apps = Rejected ()
             then ([], Rejected DependencyFetchError)
             else ([], Pending))"

subsection \<open>Names for what one checkout resolves to\<close>

text \<open>
  The tax strategy and the preferred tax app identifier that \<open>generate_payloads\<close>
  computes for a checkout from its tax configuration.
\<close>

definition tax_strategy_of ::
  "('tok, 'x, 'li, 'tc, 'ctc, 'v) collaborators \<Rightarrow> ('tok, 'x) CheckoutInfo_scheme \<Rightarrow> 'li \<Rightarrow>
   TaxCalculationStrategy" where
  "tax_strategy_of env checkout_info lines_info =
     (case get_tax_configuration_for_checkout env checkout_info lines_info of
        (tax_configuration, country_tax_configuration) \<Rightarrow>
          get_tax_calculation_strategy env tax_configuration country_tax_configuration)"

definition tax_app_identifier_of ::
  "('tok, 'x, 'li, 'tc, 'ctc, 'v) collaborators \<Rightarrow> ('tok, 'x) CheckoutInfo_scheme \<Rightarrow> 'li \<Rightarrow>
   string option" where
  "tax_app_identifier_of env checkout_info lines_info =
     (case get_tax_configuration_for_checkout env checkout_info lines_info of
        (tax_configuration, country_tax_configuration) \<Rightarrow>
          get_tax_app_id env tax_configuration country_tax_configuration)"

text \<open>
  The selection rule in the words of the specification: a candidate is selected when
  its query is present and either no preferred integration is configured or the
  candidate's integration identity matches the preference.
\<close>

definition spec_selected :: "string option \<Rightarrow> App \<Rightarrow> Webhook \<Rightarrow> bool" where
  "spec_selected preferred app webhook =
     (truthy_str (subscription_query webhook) \<and>
      (\<not> truthy_str preferred \<or> identifier app = preferred))"

subsection \<open>Example runs\<close>

text \<open>
  The example of the specification: every checkout uses the tax app strategy, the clock
  reads 100, the price of checkout \<open>c1\<close> expired at 50 and the price of every other
  checkout expires at 200; one webhook of app 7 with query \<open>{...}\<close> and hash \<open>h1\<close>;
  every generated payload is \<open>{"amount": 10}\<close>.
\<close>

definition example_env ::
  "(string, unit, unit, TaxCalculationStrategy, string option, int) collaborators" where
  "example_env =
     \<lparr>get_webhooks_for_event = [\<lparr>app_id = 7, subscription_query = Some ''{...}''\<rparr>],
      get_tax_configuration_for_checkout = (\<lambda>checkout_info lines_info. (TAX_APP, None)),
      get_tax_calculation_strategy = (\<lambda>tc ctc. tc),
      get_tax_app_id = (\<lambda>tc ctc. ctc),
      get_subscription_query_hash = (\<lambda>query. if query = ''{...}'' then ''h1'' else ''h2''),
      str = (\<lambda>tok. tok),
      timezone_now = (\<lambda>i. 100),
      generate_payload_promise_from_subscription =
        (\<lambda>i call. Fulfilled (PDict [(''amount'', 10)])),
      completion_time = (\<lambda>i. i),
      CheckoutInfoByCheckoutTokenLoader_load_many =
        (\<lambda>keys. Fulfilled (map (\<lambda>k. \<lparr>checkout =
           \<lparr>pk = k, price_expiration = (if k = ''c1'' then 50 else 200)\<rparr>\<rparr>) keys)),
      CheckoutLinesInfoByCheckoutTokenLoader_load_many =
        (\<lambda>keys. Fulfilled (map (\<lambda>k. ()) keys)),
      AppByIdLoader_load_many =
        (\<lambda>ids. Fulfilled (map (\<lambda>i. Some \<lparr>id' = i,
           identifier = Some (if i = 7 then ''tax.p'' else ''tax.q'')\<rparr>) ids))\<rparr>"

definition example_call :: "Webhook \<Rightarrow> App \<Rightarrow> string generation_call" where
  "example_call webhook app =
     issue_call example_env \<lparr>pk = ''c1'', price_expiration = 50\<rparr> webhook app
       (case subscription_query webhook of Some query \<Rightarrow> query | None \<Rightarrow> [])"

definition webhook_p :: Webhook where
  "webhook_p = \<lparr>app_id = 7, subscription_query = Some ''{...}''\<rparr>"

definition webhook_q :: Webhook where
  "webhook_q = \<lparr>app_id = 8, subscription_query = Some ''{...}''\<rparr>"

definition app_p :: App where
  "app_p = \<lparr>id' = 7, identifier = Some ''tax.p''\<rparr>"

definition app_q :: App where
  "app_q = \<lparr>id' = 8, identifier = Some ''tax.q''\<rparr>"

text \<open>Two candidates, of the apps \<open>tax.p\<close> and \<open>tax.q\<close>, with and without a preference.\<close>

definition two_candidates_env ::
  "string option \<Rightarrow> (string, unit, unit, TaxCalculationStrategy, string option, int) collaborators" where
  "two_candidates_env preferred =
     example_env
       \<lparr>get_webhooks_for_event := [webhook_p, webhook_q],
        get_tax_configuration_for_checkout := (\<lambda>checkout_info lines_info. (TAX_APP, preferred))\<rparr>"



text \<open>Two webhooks of app 7 with the same subscription query.\<close>

definition duplicate_env ::
  "(string, unit, unit, TaxCalculationStrategy, string option, int) collaborators" where
  "duplicate_env = example_env\<lparr>get_webhooks_for_event := [webhook_p, webhook_p]\<rparr>"

text \<open>The app loader finds no app.\<close>

definition missing_app_env ::
  "(string, unit, unit, TaxCalculationStrategy, string option, int) collaborators" where
  "missing_app_env =
     example_env\<lparr>AppByIdLoader_load_many := (\<lambda>ids. Fulfilled (map (\<lambda>i. None) ids))\<rparr>"

text \<open>The checkout info fetch is rejected; the line fetch is still pending.\<close>

definition failing_fetch_env ::
  "(string, unit, unit, TaxCalculationStrategy, string option, int) collaborators" where
  "failing_fetch_env =
     example_env
       \<lparr>CheckoutInfoByCheckoutTokenLoader_load_many := (\<lambda>keys. Rejected ()),
        CheckoutLinesInfoByCheckoutTokenLoader_load_many := (\<lambda>keys. Pending)\<rparr>"

section \<open>Properties of the keyed bulk fetchers\<close>

lemma get_or_empty_empty: "get_or_empty Map.empty k = []"
  by (simp add: get_or_empty_def)

lemma webhook_events_map_loop_get:
  "get_or_empty (webhook_events_map_loop m events) k =
     get_or_empty m k @ filter (\<lambda>e. webhook_id e = k) events"
  by (induction events arbitrary: m)
     (auto simp: get_or_empty_def defaultdict_append_def)

lemma webhooks_by_app_map_loop_get:
  "get_or_empty (webhooks_by_app_map_loop m ws) k =
     get_or_empty m k @ filter (\<lambda>w. app_id w = k) ws"
  by (induction ws arbitrary: m)
     (auto simp: get_or_empty_def defaultdict_append_def)

text \<open>
  C7. Whatever mapping the bulk fetch returns (any order, any subset of the keys), the
  result of \<open>PayloadByIdLoader.batch_load\<close> has one slot per key, in key order:
  position \<open>i\<close> holds the payload of the record of key \<open>i\<close> where the mapping has
  one, and \<open>None\<close> where it has not.
\<close>

theorem PayloadByIdLoader_positional:
  "length (PayloadByIdLoader_batch_load in_bulk get_payload keys) = length keys \<and>
   (\<forall>i < length keys.
      PayloadByIdLoader_batch_load in_bulk get_payload keys ! i =
        (case in_bulk keys (keys ! i) of
           Some r \<Rightarrow> Some (get_payload r)
         | None \<Rightarrow> None))"
  by (simp add: PayloadByIdLoader_batch_load_def Let_def)

theorem PayloadByIdLoader_positional_witness:
  "(1::nat) < length [3, 1, 2 :: int] \<and>
   length (PayloadByIdLoader_batch_load (\<lambda>ks. [2 \<mapsto> ''two'', 3 \<mapsto> ''three'']) rev
             [3, 1, 2 :: int]) = 3 \<and>
   PayloadByIdLoader_batch_load (\<lambda>ks. [2 \<mapsto> ''two'', 3 \<mapsto> ''three'']) rev
     [3, 1, 2 :: int] ! 1 = None \<and>
   PayloadByIdLoader_batch_load (\<lambda>ks. [2 \<mapsto> ''two'', 3 \<mapsto> ''three'']) rev
     [3, 1, 2 :: int] ! 0 = Some ''eerht''"
  using PayloadByIdLoader_positional
          [of "\<lambda>ks. [2 \<mapsto> ''two'', 3 \<mapsto> ''three'']" rev "[3, 1, 2 :: int]"]
  by (simp add: nth_Cons')

text \<open>
  C8. Both grouping loaders return one list per requested key, in key order: the rows
  of the bulk query whose foreign key (\<open>webhook_id\<close>, \<open>app_id\<close>) equals the key, in
  the order of the query, and so the empty list for a key that no row has.
\<close>

theorem grouping_loaders_by_foreign_key:
  "WebhookEventsByWebhookIdLoader_batch_load fetch_events keys =
     map (\<lambda>k. filter (\<lambda>e. webhook_id e = k) (fetch_events keys)) keys \<and>
   WebhooksByAppIdLoader_batch_load fetch_webhooks keys =
     map (\<lambda>k. filter (\<lambda>w. app_id w = k) (fetch_webhooks keys)) keys \<and>
   (\<forall>i < length keys.
      (\<forall>e \<in> set (fetch_events keys). webhook_id e \<noteq> keys ! i) \<longrightarrow>
      WebhookEventsByWebhookIdLoader_batch_load fetch_events keys ! i = []) \<and>
   (\<forall>i < length keys.
      (\<forall>w \<in> set (fetch_webhooks keys). app_id w \<noteq> keys ! i) \<longrightarrow>
      WebhooksByAppIdLoader_batch_load fetch_webhooks keys ! i = [])"
proof -
  have ev: "WebhookEventsByWebhookIdLoader_batch_load fetch_events keys =
     map (\<lambda>k. filter (\<lambda>e. webhook_id e = k) (fetch_events keys)) keys"
    by (simp add: WebhookEventsByWebhookIdLoader_batch_load_def Let_def
          webhook_events_map_loop_get get_or_empty_empty)
  have wh: "WebhooksByAppIdLoader_batch_load fetch_webhooks keys =
     map (\<lambda>k. filter (\<lambda>w. app_id w = k) (fetch_webhooks keys)) keys"
    by (simp add: WebhooksByAppIdLoader_batch_load_def Let_def
          webhooks_by_app_map_loop_get get_or_empty_empty)
  have "\<forall>i < length keys.
      (\<forall>e \<in> set (fetch_events keys). webhook_id e \<noteq> keys ! i) \<longrightarrow>
      WebhookEventsByWebhookIdLoader_batch_load fetch_events keys ! i = []"
    by (simp add: ev filter_empty_conv)
  moreover have "\<forall>i < length keys.
      (\<forall>w \<in> set (fetch_webhooks keys). app_id w \<noteq> keys ! i) \<longrightarrow>
      WebhooksByAppIdLoader_batch_load fetch_webhooks keys ! i = []"
    by (simp add: wh filter_empty_conv)
  ultimately show ?thesis using ev wh by blast
qed

theorem grouping_loaders_by_foreign_key_witness:
  "WebhookEventsByWebhookIdLoader_batch_load
     (\<lambda>ks. [\<lparr>webhook_id = 2, event_type = ''a''\<rparr>, \<lparr>webhook_id = 1, event_type = ''b''\<rparr>,
            \<lparr>webhook_id = 2, event_type = ''c''\<rparr>]) [1, 5, 2] =
     [[\<lparr>webhook_id = 1, event_type = ''b''\<rparr>], [],
      [\<lparr>webhook_id = 2, event_type = ''a''\<rparr>, \<lparr>webhook_id = 2, event_type = ''c''\<rparr>]] \<and>
   WebhooksByAppIdLoader_batch_load (\<lambda>ks. [webhook_q, webhook_p, webhook_q]) [7, 9, 8] =
     [[webhook_p], [], [webhook_q, webhook_q]] \<and>
   (1::nat) < length [1, 5, 2 :: int]"
  using grouping_loaders_by_foreign_key
          [of "\<lambda>ks. [\<lparr>webhook_id = 2, event_type = ''a''\<rparr>, \<lparr>webhook_id = 1, event_type = ''b''\<rparr>,
                     \<lparr>webhook_id = 2, event_type = ''c''\<rparr>]" "[1, 5, 2]"
              "\<lambda>ks. [webhook_q, webhook_p, webhook_q]"]
        grouping_loaders_by_foreign_key
          [of "\<lambda>ks. []" "[7, 9, 8]" "\<lambda>ks. [webhook_q, webhook_p, webhook_q]"]
  by (simp add: webhook_p_def webhook_q_def)

section \<open>Properties of the pregeneration orchestrator\<close>

subsection \<open>The nested result and the store callbacks\<close>

lemma store_payload_falsy: "\<not> truthy_payload p \<Longrightarrow> store_payload r p t a h = r"
  by (simp add: store_payload_def)

lemma payload_at_store:
  "payload_at (store_payload r p t a h) k =
     (if truthy_payload p \<and> k = (t, a, h) then Some p else payload_at r k)"
  by (cases k) (auto simp: payload_at_def store_payload_def defaultdict_get_def Let_def)

lemma defaultdict_get_store_other:
  "t' \<noteq> t \<Longrightarrow> defaultdict_get (store_payload r p t a h) t' = defaultdict_get r t'"
  by (simp add: store_payload_def defaultdict_get_def Let_def)

lemma run_stores_untouched:
  "\<forall>(c, p) \<in> set xs. truthy_payload p \<longrightarrow> checkout_token c \<noteq> t \<Longrightarrow>
   defaultdict_get (run_stores r xs) t = defaultdict_get r t"
proof (induction xs arbitrary: r)
  case Nil
  then show ?case by simp
next
  case (Cons x xs)
  obtain c p where x: "x = (c, p)" by (cases x)
  have "defaultdict_get (store_payload r p (checkout_token c) (call_app_id c) (query_hash c)) t
          = defaultdict_get r t"
  proof (cases "truthy_payload p")
    case True
    with Cons.prems x have "checkout_token c \<noteq> t" by auto
    then show ?thesis by (simp add: defaultdict_get_store_other)
  next
    case False
    then show ?thesis by (simp add: store_payload_falsy)
  qed
  with Cons x show ?case by simp
qed

lemma payload_at_run_stores_other:
  "\<forall>(c, p) \<in> set xs. truthy_payload p \<longrightarrow> call_triple c \<noteq> k \<Longrightarrow>
   payload_at (run_stores r xs) k = payload_at r k"
proof (induction xs arbitrary: r)
  case Nil
  then show ?case by simp
next
  case (Cons x xs)
  obtain c p where x: "x = (c, p)" by (cases x)
  from Cons.prems x have "truthy_payload p \<longrightarrow> call_triple c \<noteq> k" by auto
  then have "payload_at (store_payload r p (checkout_token c) (call_app_id c) (query_hash c)) k
          = payload_at r k"
    by (auto simp: payload_at_store call_triple_def)
  with Cons x show ?case by simp
qed


lemma payload_at_run_stores_distinct:
  "distinct (map (call_triple \<circ> fst) xs) \<Longrightarrow> (c, p) \<in> set xs \<Longrightarrow> truthy_payload p \<Longrightarrow>
   payload_at (run_stores r xs) (call_triple c) = Some p"
proof (induction xs arbitrary: r)
  case Nil
  then show ?case by simp
next
  case (Cons x xs)
  obtain c' p' where x: "x = (c', p')" by (cases x)
  show ?case
  proof (cases "(c, p) = x")
    case True
    with x have eq: "c' = c" "p' = p" by auto
    from Cons.prems(1) x eq have "\<forall>(d, q) \<in> set xs. truthy_payload q \<longrightarrow> call_triple d \<noteq> call_triple c"
      by (auto simp: image_iff) 
    then have "payload_at (run_stores (store_payload r p (checkout_token c) (call_app_id c) (query_hash c)) xs) (call_triple c)
       = payload_at (store_payload r p (checkout_token c) (call_app_id c) (query_hash c)) (call_triple c)"
      by (rule payload_at_run_stores_other)
    with Cons.prems(3) show ?thesis
      by (simp add: x eq payload_at_store call_triple_def)
  next
    case False
    with Cons.prems have "(c, p) \<in> set xs" by auto
    with Cons show ?thesis by (simp add: x)
  qed
qed

lemma apps_map_loop_None:
  "None \<in> set apps \<Longrightarrow> apps_map_loop m apps = Inl AttributeError"
  by (induction m apps rule: apps_map_loop.induct) auto

lemma apps_map_loop_Some:
  "None \<notin> set apps \<Longrightarrow>
   \<exists>am. apps_map_loop m apps = Inr am \<and> dom am = dom m \<union> {id' a |a. Some a \<in> set apps}"
  by (induction m apps rule: apps_map_loop.induct) auto

lemma webhooks_loop_present:
  "\<forall>w \<in> set ws. apps_map (app_id w) \<noteq> None \<Longrightarrow>
   webhooks_loop env apps_map co tid ws =
     (map (\<lambda>w. issue_call env co w (the (apps_map (app_id w))) (the (subscription_query w)))
        (filter (\<lambda>w. spec_selected tid (the (apps_map (app_id w))) w) ws), None)"
  by (induction ws) (auto simp: spec_selected_def split: option.splits)

lemma webhooks_loop_calls:
  "c \<in> set (fst (webhooks_loop env apps_map co tid ws)) \<Longrightarrow>
   subscribable_object c = co \<and> checkout_token c = str env (pk co)"
  by (induction ws arbitrary: c)
     (auto simp: issue_call_def split: option.splits prod.splits if_splits)

lemma webhooks_loop_error:
  "snd (webhooks_loop env apps_map co tid ws) = Some e \<Longrightarrow>
   e = KeyError \<and> (\<exists>w \<in> set ws. apps_map (app_id w) = None)"
  by (induction ws)
     (auto split: option.splits prod.splits if_splits)

lemma checkouts_loop_calls:
  "c \<in> set (fst (checkouts_loop env apps_map i xs)) \<Longrightarrow>
   \<exists>j < length xs. c \<in> set (fst (evaluate_checkout env apps_map (i + j) (fst (xs ! j)) (snd (xs ! j))))"
proof (induction xs arbitrary: i)
  case Nil
  then show ?case by simp
next
  case (Cons x xs)
  obtain ci li where x: "x = (ci, li)" by (cases x)
  obtain cs e where ev: "evaluate_checkout env apps_map i ci li = (cs, e)"
    by (cases "evaluate_checkout env apps_map i ci li")
  show ?case
  proof (cases "c \<in> set cs")
    case True
    with ev x have "c \<in> set (fst (evaluate_checkout env apps_map (i + 0) (fst ((x # xs) ! 0)) (snd ((x # xs) ! 0))))"
      by simp
    then show ?thesis by blast
  next
    case False
    with Cons.prems x ev have "c \<in> set (fst (checkouts_loop env apps_map (Suc i) xs))"
      by (auto split: option.splits prod.splits)
    from Cons.IH[OF this] obtain j where "j < length xs"
      "c \<in> set (fst (evaluate_checkout env apps_map (Suc i + j) (fst (xs ! j)) (snd (xs ! j))))"
      by blast
    then have "Suc j < length (x # xs) \<and>
       c \<in> set (fst (evaluate_checkout env apps_map (i + Suc j) (fst ((x # xs) ! Suc j)) (snd ((x # xs) ! Suc j))))"
      by simp
    then show ?thesis by blast
  qed
qed

lemma evaluate_checkout_error:
  "snd (evaluate_checkout env apps_map i ci li) = Some e \<Longrightarrow>
   e = KeyError \<and> (\<exists>w \<in> set (get_webhooks_for_event env). apps_map (app_id w) = None)"
  by (auto simp: evaluate_checkout_def Let_def split: prod.splits if_splits dest: webhooks_loop_error)

lemma checkouts_loop_error:
  "snd (checkouts_loop env apps_map i xs) = Some e \<Longrightarrow>
   e = KeyError \<and> (\<exists>w \<in> set (get_webhooks_for_event env). apps_map (app_id w) = None)"
proof (induction xs arbitrary: i)
  case Nil
  then show ?case by simp
next
  case (Cons x xs)
  obtain ci li where x: "x = (ci, li)" by (cases x)
  obtain cs e' where ev: "evaluate_checkout env apps_map i ci li = (cs, e')"
    by (cases "evaluate_checkout env apps_map i ci li")
  show ?case
  proof (cases e')
    case None
    with Cons.prems x ev have "snd (checkouts_loop env apps_map (Suc i) xs) = Some e"
      by (auto split: prod.splits)
    then show ?thesis by (rule Cons.IH)
  next
    case (Some a)
    with Cons.prems x ev have "snd (evaluate_checkout env apps_map i ci li) = Some e" by simp
    then show ?thesis by (rule evaluate_checkout_error)
  qed
qed

lemma checkouts_loop_ineligible:
  "\<forall>j < length xs. evaluate_checkout env apps_map (i + j) (fst (xs ! j)) (snd (xs ! j)) = ([], None) \<Longrightarrow>
   checkouts_loop env apps_map i xs = ([], None)"
proof (induction xs arbitrary: i)
  case Nil
  then show ?case by simp
next
  case (Cons x xs)
  obtain ci li where x: "x = (ci, li)" by (cases x)
  from Cons.prems have "evaluate_checkout env apps_map (i + 0) (fst ((x # xs) ! 0)) (snd ((x # xs) ! 0)) = ([], None)"
    by blast
  with x have ev: "evaluate_checkout env apps_map i ci li = ([], None)" by simp
  have "\<forall>j < length xs. evaluate_checkout env apps_map (Suc i + j) (fst (xs ! j)) (snd (xs ! j)) = ([], None)"
  proof (intro allI impI)
    fix j assume "j < length xs"
    then have "Suc j < length (x # xs)" by simp
    with Cons.prems have "evaluate_checkout env apps_map (i + Suc j) (fst ((x # xs) ! Suc j)) (snd ((x # xs) ! Suc j)) = ([], None)"
      by blast
    then show "evaluate_checkout env apps_map (Suc i + j) (fst (xs ! j)) (snd (xs ! j)) = ([], None)"
      by simp
  qed
  from Cons.IH[OF this] ev x show ?case by simp
qed

subsection \<open>The settled calls and the returned promise\<close>

lemma completed_stores_mem:
  "(c, p) \<in> set (completed_stores env ps) \<longleftrightarrow>
     (\<exists>i < length ps. c = ps ! i \<and>
        generate_payload_promise_from_subscription env i (ps ! i) = Fulfilled p)"
proof
  assume "(c, p) \<in> set (completed_stores env ps)"
  then obtain i d where "(i, d) \<in> set (enumerate 0 ps)"
    and "(case generate_payload_promise_from_subscription env i d of
            Fulfilled payload \<Rightarrow> Some (d, payload) | _ \<Rightarrow> None) = Some (c, p)"
    by (auto simp: completed_stores_def List.map_filter_def split: promise.splits)
  then show "\<exists>i < length ps. c = ps ! i \<and>
        generate_payload_promise_from_subscription env i (ps ! i) = Fulfilled p"
    by (auto simp: in_set_enumerate_eq split: promise.splits)
next
  assume "\<exists>i < length ps. c = ps ! i \<and>
        generate_payload_promise_from_subscription env i (ps ! i) = Fulfilled p"
  then obtain i where i: "i < length ps" "c = ps ! i"
    "generate_payload_promise_from_subscription env i (ps ! i) = Fulfilled p" by blast
  then have "(i, c) \<in> set (sort_key (\<lambda>(i, call). completion_time env i) (enumerate 0 ps))"
    by (simp add: in_set_enumerate_eq)
  with i(2,3) show "(c, p) \<in> set (completed_stores env ps)"
    by (force simp: completed_stores_def List.map_filter_def image_iff)
qed

lemma completed_stores_distinct:
  assumes "distinct (map call_triple ps)"
  shows "distinct (map (call_triple \<circ> fst) (completed_stores env ps))"
proof -
  let ?f = "\<lambda>(i, call). case generate_payload_promise_from_subscription env i call of
                      Fulfilled payload \<Rightarrow> Some (call, payload)
                    | _ \<Rightarrow> None"
  let ?s = "sort_key (\<lambda>(i, call). completion_time env i) (enumerate 0 ps)"
  have m: "map (call_triple \<circ> snd) (enumerate 0 ps) = map call_triple ps"
    by (simp flip: map_map)
  have "distinct (map (call_triple \<circ> snd) (enumerate 0 ps))"
    using assms by (simp only: m)
  then have "distinct (map (call_triple \<circ> snd) ?s)"
    by (simp add: distinct_map)
  then have d: "distinct (map (call_triple \<circ> snd) (filter (\<lambda>x. ?f x \<noteq> None) ?s))"
    by (rule distinct_map_filter)
  have "map (call_triple \<circ> fst) (completed_stores env ps) =
        map (call_triple \<circ> snd) (filter (\<lambda>x. ?f x \<noteq> None) ?s)"
    by (auto simp: completed_stores_def List.map_filter_def split: promise.splits)
  with d show ?thesis by simp
qed



lemma batch_load_Fulfilled:
  assumes "batch_load env keys = (ps, Fulfilled rs)"
  shows "rs = return_payloads env (run_stores Map.empty (completed_stores env ps)) keys"
    and "Rejected () \<notin> set (outcomes env ps)"
    and "Pending \<notin> set (outcomes env ps)"
  using assms
  by (auto simp: batch_load_def generate_payloads_def Promise_all_then_return_payloads_def Let_def
           split: promise.splits sum.splits prod.splits option.splits if_splits)

lemma batch_load_issued:
  assumes "c \<in> set (fst (batch_load env keys))"
  shows "\<exists>cis lis aps am.
           CheckoutInfoByCheckoutTokenLoader_load_many env keys = Fulfilled cis \<and>
           CheckoutLinesInfoByCheckoutTokenLoader_load_many env keys = Fulfilled lis \<and>
           AppByIdLoader_load_many env (map app_id (get_webhooks_for_event env)) = Fulfilled aps \<and>
           apps_map_loop Map.empty aps = Inr am \<and>
           c \<in> set (fst (checkouts_loop env am 0 (zip cis lis)))"
  using assms
  by (auto simp: batch_load_def generate_payloads_def Let_def
           split: promise.splits sum.splits prod.splits option.splits if_splits)

lemma batch_load_returns:
  assumes "CheckoutInfoByCheckoutTokenLoader_load_many env keys = Fulfilled cis"
      and "CheckoutLinesInfoByCheckoutTokenLoader_load_many env keys = Fulfilled lis"
      and "AppByIdLoader_load_many env (map app_id (get_webhooks_for_event env)) = Fulfilled aps"
      and "None \<notin> set aps"
      and "\<forall>w \<in> set (get_webhooks_for_event env). \<exists>a. Some a \<in> set aps \<and> id' a = app_id w"
      and "\<forall>i c. \<exists>p. generate_payload_promise_from_subscription env i c = Fulfilled p"
  shows "\<exists>ps. batch_load env keys =
           (ps, Fulfilled (return_payloads env (run_stores Map.empty (completed_stores env ps)) keys))"
proof -
  from apps_map_loop_Some[OF assms(4), of Map.empty]
  obtain am where am: "apps_map_loop Map.empty aps = Inr am"
    and dom: "dom am = {id' a |a. Some a \<in> set aps}" by auto
  from assms(5) dom have pres: "\<forall>w \<in> set (get_webhooks_for_event env). am (app_id w) \<noteq> None"
    by (metis (mono_tags, lifting) domIff mem_Collect_eq)
  obtain ps e where cl: "checkouts_loop env am 0 (zip cis lis) = (ps, e)"
    by (cases "checkouts_loop env am 0 (zip cis lis)")
  have "e = None"
  proof (cases e)
    case None then show ?thesis .
  next
    case (Some err)
    with cl have "snd (checkouts_loop env am 0 (zip cis lis)) = Some err" by simp
    from checkouts_loop_error[OF this] pres show ?thesis by blast
  qed
  have o: "\<forall>x \<in> set (outcomes env ps). \<exists>p. x = Fulfilled p"
    using assms(6) by (auto simp: outcomes_def)
  then have "Rejected () \<notin> set (outcomes env ps)" "Pending \<notin> set (outcomes env ps)"
    by auto
  with assms(1-3) am cl \<open>e = None\<close> show ?thesis
    by (simp add: batch_load_def generate_payloads_def Promise_all_then_return_payloads_def)
qed

lemma defaultdict_get_empty: "defaultdict_get Map.empty k = Map.empty"
  by (simp add: defaultdict_get_def)

lemma evaluate_checkout_gate:
  "\<not> (tax_strategy_of env ci li = TAX_APP \<and>
       price_expiration (checkout ci) \<le> timezone_now env i) \<Longrightarrow>
   evaluate_checkout env apps_map i ci li = ([], None)"
  by (auto simp: evaluate_checkout_def tax_strategy_of_def Let_def split: prod.splits)

lemma evaluate_checkout_selected:
  "tax_strategy_of env ci li = TAX_APP \<Longrightarrow>
   price_expiration (checkout ci) \<le> timezone_now env i \<Longrightarrow>
   evaluate_checkout env apps_map i ci li =
     webhooks_loop env apps_map (checkout ci) (tax_app_identifier_of env ci li)
       (get_webhooks_for_event env)"
  by (auto simp: evaluate_checkout_def tax_strategy_of_def tax_app_identifier_of_def Let_def
           split: prod.splits)

lemma batch_load_no_eligible:
  assumes "CheckoutInfoByCheckoutTokenLoader_load_many env keys = Fulfilled cis"
      and "CheckoutLinesInfoByCheckoutTokenLoader_load_many env keys = Fulfilled lis"
      and "AppByIdLoader_load_many env (map app_id (get_webhooks_for_event env)) = Fulfilled aps"
      and "None \<notin> set aps"
      and "\<forall>i. i < length cis \<and> i < length lis \<longrightarrow>
             \<not> (tax_strategy_of env (cis ! i) (lis ! i) = TAX_APP \<and>
                price_expiration (checkout (cis ! i)) \<le> timezone_now env i)"
  shows "batch_load env keys = ([], Fulfilled (replicate (length keys) Map.empty))"
proof -
  from apps_map_loop_Some[OF assms(4), of Map.empty]
  obtain am where am: "apps_map_loop Map.empty aps = Inr am" by auto
  have "\<forall>j < length (zip cis lis).
          evaluate_checkout env am (0 + j) (fst (zip cis lis ! j)) (snd (zip cis lis ! j)) = ([], None)"
    using assms(5) by (simp add: evaluate_checkout_gate)
  then have cl: "checkouts_loop env am 0 (zip cis lis) = ([], None)"
    by (rule checkouts_loop_ineligible)
  have "return_payloads env Map.empty keys = replicate (length keys) Map.empty"
    by (simp add: return_payloads_def defaultdict_get_empty map_replicate_const)
  with assms(1-3) am cl show ?thesis
    by (simp add: batch_load_def generate_payloads_def Promise_all_then_return_payloads_def
          outcomes_def completed_stores_def)
qed

lemma batch_load_shape:
  assumes "batch_load env keys = (ps, Fulfilled rs)"
  shows "length rs = length keys"
    and "i < length keys \<Longrightarrow>
         rs ! i = defaultdict_get (run_stores Map.empty (completed_stores env ps))
                    (str env (keys ! i))"
  using batch_load_Fulfilled(1)[OF assms] by (simp_all add: return_payloads_def)

text \<open>
  C1. When the promise returned by \<open>batch_load\<close> is fulfilled, its value has one
  nested mapping per input token, in input order: position \<open>i\<close> holds the entry of
  the result under \<open>str(keys[i])\<close>, which is the empty mapping when no issued call
  for that token produced a truthy payload, and every position is empty when no call
  was issued. The promise is fulfilled when the three fetches are, every webhook's app
  was loaded and every payload promise is fulfilled; with no eligible checkout it is
  fulfilled with \<open>N\<close> empty mappings and no call is issued.
\<close>

theorem batch_load_aligned:
  "(batch_load env keys = (ps, Fulfilled rs) \<longrightarrow>
      length rs = length keys \<and>
      (\<forall>i < length keys.
         rs ! i = defaultdict_get (run_stores Map.empty (completed_stores env ps))
                    (str env (keys ! i)) \<and>
         ((\<forall>j < length ps. \<forall>p.
              checkout_token (ps ! j) = str env (keys ! i) \<longrightarrow>
              generate_payload_promise_from_subscription env j (ps ! j) = Fulfilled p \<longrightarrow>
              \<not> truthy_payload p) \<longrightarrow>
          rs ! i = Map.empty)) \<and>
      (ps = [] \<longrightarrow> rs = replicate (length keys) Map.empty)) \<and>
   (CheckoutInfoByCheckoutTokenLoader_load_many env keys = Fulfilled cis \<and>
    CheckoutLinesInfoByCheckoutTokenLoader_load_many env keys = Fulfilled lis \<and>
    AppByIdLoader_load_many env (map app_id (get_webhooks_for_event env)) = Fulfilled aps \<and>
    None \<notin> set aps \<and>
    (\<forall>w \<in> set (get_webhooks_for_event env). \<exists>a. Some a \<in> set aps \<and> id' a = app_id w) \<and>
    (\<forall>j c. \<exists>p. generate_payload_promise_from_subscription env j c = Fulfilled p) \<longrightarrow>
    (\<exists>ps' rs'. batch_load env keys = (ps', Fulfilled rs') \<and> length rs' = length keys)) \<and>
   (CheckoutInfoByCheckoutTokenLoader_load_many env keys = Fulfilled cis \<and>
    CheckoutLinesInfoByCheckoutTokenLoader_load_many env keys = Fulfilled lis \<and>
    AppByIdLoader_load_many env (map app_id (get_webhooks_for_event env)) = Fulfilled aps \<and>
    None \<notin> set aps \<and>
    (\<forall>i. i < length cis \<and> i < length lis \<longrightarrow>
       \<not> (tax_strategy_of env (cis ! i) (lis ! i) = TAX_APP \<and>
          price_expiration (checkout (cis ! i)) \<le> timezone_now env i)) \<longrightarrow>
    batch_load env keys = ([], Fulfilled (replicate (length keys) Map.empty)))"
proof (intro conjI impI)
  assume bl: "batch_load env keys = (ps, Fulfilled rs)"
  show "length rs = length keys" by (rule batch_load_shape(1)[OF bl])
  show "\<forall>i < length keys.
         rs ! i = defaultdict_get (run_stores Map.empty (completed_stores env ps))
                    (str env (keys ! i)) \<and>
         ((\<forall>j < length ps. \<forall>p.
              checkout_token (ps ! j) = str env (keys ! i) \<longrightarrow>
              generate_payload_promise_from_subscription env j (ps ! j) = Fulfilled p \<longrightarrow>
              \<not> truthy_payload p) \<longrightarrow>
          rs ! i = Map.empty)"
  proof (intro allI impI conjI)
    fix i assume i: "i < length keys"
    show eq: "rs ! i = defaultdict_get (run_stores Map.empty (completed_stores env ps))
                    (str env (keys ! i))"
      by (rule batch_load_shape(2)[OF bl i])
    assume none: "\<forall>j < length ps. \<forall>p.
              checkout_token (ps ! j) = str env (keys ! i) \<longrightarrow>
              generate_payload_promise_from_subscription env j (ps ! j) = Fulfilled p \<longrightarrow>
              \<not> truthy_payload p"
    have "\<forall>(c, p) \<in> set (completed_stores env ps).
            truthy_payload p \<longrightarrow> checkout_token c \<noteq> str env (keys ! i)"
      using none by (auto simp: completed_stores_mem)
    then have "defaultdict_get (run_stores Map.empty (completed_stores env ps)) (str env (keys ! i))
             = defaultdict_get Map.empty (str env (keys ! i))"
      by (rule run_stores_untouched)
    with eq show "rs ! i = Map.empty" by (simp add: defaultdict_get_empty)
  qed
  show "rs = replicate (length keys) Map.empty" if "ps = []"
    using batch_load_Fulfilled(1)[OF bl] that
    by (simp add: completed_stores_def return_payloads_def defaultdict_get_empty
          map_replicate_const)
next
  assume a: "CheckoutInfoByCheckoutTokenLoader_load_many env keys = Fulfilled cis \<and>
    CheckoutLinesInfoByCheckoutTokenLoader_load_many env keys = Fulfilled lis \<and>
    AppByIdLoader_load_many env (map app_id (get_webhooks_for_event env)) = Fulfilled aps \<and>
    None \<notin> set aps \<and>
    (\<forall>w \<in> set (get_webhooks_for_event env). \<exists>a. Some a \<in> set aps \<and> id' a = app_id w) \<and>
    (\<forall>j c. \<exists>p. generate_payload_promise_from_subscription env j c = Fulfilled p)"
  then obtain ps' where "batch_load env keys =
      (ps', Fulfilled (return_payloads env (run_stores Map.empty (completed_stores env ps')) keys))"
    using batch_load_returns[of env keys cis lis aps] by blast
  then show "\<exists>ps' rs'. batch_load env keys = (ps', Fulfilled rs') \<and> length rs' = length keys"
    by (auto simp: return_payloads_def)
next
  assume "CheckoutInfoByCheckoutTokenLoader_load_many env keys = Fulfilled cis \<and>
    CheckoutLinesInfoByCheckoutTokenLoader_load_many env keys = Fulfilled lis \<and>
    AppByIdLoader_load_many env (map app_id (get_webhooks_for_event env)) = Fulfilled aps \<and>
    None \<notin> set aps \<and>
    (\<forall>i. i < length cis \<and> i < length lis \<longrightarrow>
       \<not> (tax_strategy_of env (cis ! i) (lis ! i) = TAX_APP \<and>
          price_expiration (checkout (cis ! i)) \<le> timezone_now env i))"
  then show "batch_load env keys = ([], Fulfilled (replicate (length keys) Map.empty))"
    using batch_load_no_eligible[of env keys cis lis aps] by blast
qed

text \<open>The definitions that a run on an example environment unfolds.\<close>

lemmas example_simps =
  batch_load_def generate_payloads_def evaluate_checkout_def
  Promise_all_then_return_payloads_def outcomes_def completed_stores_def issue_call_def
  return_payloads_def store_payload_def defaultdict_get_def enumerate_eq_zip
  example_env_def example_call_def webhook_p_def webhook_q_def app_p_def app_q_def

theorem batch_load_aligned_witness:
  "batch_load example_env [''c1'', ''c2''] =
     ([example_call webhook_p app_p],
      Fulfilled [[7 \<mapsto> [''h1'' \<mapsto> PDict [(''amount'', 10)]]], Map.empty]) \<and>
   length [[7 :: int \<mapsto> [''h1'' \<mapsto> PDict [(''amount'', 10 :: int)]]], Map.empty] =
     length [''c1'', ''c2''] \<and>
   batch_load example_env [''c2'', ''c3''] = ([], Fulfilled (replicate 2 Map.empty))"
proof -
  have run: "batch_load example_env [''c1'', ''c2''] =
     ([example_call webhook_p app_p],
      Fulfilled [[7 \<mapsto> [''h1'' \<mapsto> PDict [(''amount'', 10)]]], Map.empty])"
    by (simp add: example_simps)
  have fetched:
    "CheckoutInfoByCheckoutTokenLoader_load_many example_env [''c2'', ''c3''] =
       Fulfilled [\<lparr>checkout = \<lparr>pk = ''c2'', price_expiration = 200\<rparr>\<rparr>,
                  \<lparr>checkout = \<lparr>pk = ''c3'', price_expiration = 200\<rparr>\<rparr>] \<and>
    CheckoutLinesInfoByCheckoutTokenLoader_load_many example_env [''c2'', ''c3''] =
       Fulfilled [(), ()] \<and>
    AppByIdLoader_load_many example_env (map app_id (get_webhooks_for_event example_env)) =
       Fulfilled [Some app_p] \<and>
    None \<notin> set [Some app_p] \<and>
    (\<forall>i. i < length [\<lparr>checkout = \<lparr>pk = ''c2'', price_expiration = 200\<rparr>\<rparr>,
                  \<lparr>checkout = \<lparr>pk = ''c3'', price_expiration = 200\<rparr>\<rparr>] \<and> i < length [(), ()] \<longrightarrow>
       \<not> (tax_strategy_of example_env
             ([\<lparr>checkout = \<lparr>pk = ''c2'', price_expiration = 200\<rparr>\<rparr>,
                  \<lparr>checkout = \<lparr>pk = ''c3'', price_expiration = 200\<rparr>\<rparr>] ! i) ([(), ()] ! i) = TAX_APP \<and>
          price_expiration (checkout ([\<lparr>checkout = \<lparr>pk = ''c2'', price_expiration = 200\<rparr>\<rparr>,
                  \<lparr>checkout = \<lparr>pk = ''c3'', price_expiration = 200\<rparr>\<rparr>] ! i))
            \<le> timezone_now example_env i))"
    by (simp add: example_env_def app_p_def nth_Cons' less_Suc_eq)
  note a = batch_load_aligned
        [where env = example_env and keys = "[''c1'', ''c2'']"
           and ps = "[example_call webhook_p app_p]"
           and rs = "[[7 \<mapsto> [''h1'' \<mapsto> PDict [(''amount'', 10)]]], Map.empty]",
         THEN conjunct1, THEN mp, OF run, THEN conjunct1]
  note b = batch_load_aligned
        [where env = example_env and keys = "[''c2'', ''c3'']"
           and cis = "[\<lparr>checkout = \<lparr>pk = ''c2'', price_expiration = 200\<rparr>\<rparr>,
                       \<lparr>checkout = \<lparr>pk = ''c3'', price_expiration = 200\<rparr>\<rparr>]"
           and lis = "[(), ()]" and aps = "[Some app_p]",
         THEN conjunct2, THEN conjunct2, THEN mp, OF fetched]
  from b have b': "batch_load example_env [''c2'', ''c3''] = ([], Fulfilled (replicate 2 Map.empty))"
    by (simp add: numeral_2_eq_2)
  from run a b' show ?thesis by (intro conjI)
qed

text \<open>
  C10. When a token occurs at several positions of the input, the returned sequence
  holds the same nested mapping at each of them: every position reads the entry of the
  one result map under the string of its token.
\<close>

theorem equal_tokens_equal_results:
  "batch_load env keys = (ps, Fulfilled rs) \<Longrightarrow> i < length keys \<Longrightarrow> j < length keys \<Longrightarrow>
   keys ! i = keys ! j \<Longrightarrow> rs ! i = rs ! j"
  by (simp add: batch_load_shape(2))

theorem equal_tokens_equal_results_witness:
  "batch_load example_env [''c1'', ''c2'', ''c1''] =
     ([example_call webhook_p app_p, example_call webhook_p app_p],
      Fulfilled [[7 \<mapsto> [''h1'' \<mapsto> PDict [(''amount'', 10)]]], Map.empty,
                 [7 \<mapsto> [''h1'' \<mapsto> PDict [(''amount'', 10)]]]]) \<and>
   [''c1'', ''c2'', ''c1''] ! 0 = [''c1'', ''c2'', ''c1''] ! 2 \<and>
   [[7 :: int \<mapsto> [''h1'' \<mapsto> PDict [(''amount'', 10 :: int)]]], Map.empty,
    [7 \<mapsto> [''h1'' \<mapsto> PDict [(''amount'', 10)]]]] ! 0 =
   [[7 \<mapsto> [''h1'' \<mapsto> PDict [(''amount'', 10)]]], Map.empty,
    [7 \<mapsto> [''h1'' \<mapsto> PDict [(''amount'', 10)]]]] ! 2"
proof -
  have run: "batch_load example_env [''c1'', ''c2'', ''c1''] =
     ([example_call webhook_p app_p, example_call webhook_p app_p],
      Fulfilled [[7 \<mapsto> [''h1'' \<mapsto> PDict [(''amount'', 10)]]], Map.empty,
                 [7 \<mapsto> [''h1'' \<mapsto> PDict [(''amount'', 10)]]]])"
    by (simp add: example_simps)
  have i: "0 < length [''c1'', ''c2'', ''c1'']" and j: "2 < length [''c1'', ''c2'', ''c1'']"
    and k: "[''c1'', ''c2'', ''c1''] ! 0 = [''c1'', ''c2'', ''c1''] ! 2"
    by simp_all
  from run k equal_tokens_equal_results[OF run i j k] show ?thesis by (intro conjI)
qed

text \<open>
  C5. \<open>batch_load\<close> joins the three fetches (checkout infos, line infos, apps). If
  one of them is rejected the returned promise is rejected and no call is issued; if
  none is rejected and one is pending, the returned promise is pending and no call is
  issued; the checkouts are evaluated, by \<open>generate_payloads\<close> on the three fetched
  values, only when all three are fulfilled.
\<close>

theorem dependency_join:
  "((CheckoutInfoByCheckoutTokenLoader_load_many env keys = Rejected () \<or>
     CheckoutLinesInfoByCheckoutTokenLoader_load_many env keys = Rejected () \<or>
     AppByIdLoader_load_many env (map app_id (get_webhooks_for_event env)) = Rejected ()) \<longrightarrow>
    batch_load env keys = ([], Rejected DependencyFetchError)) \<and>
   (CheckoutInfoByCheckoutTokenLoader_load_many env keys \<noteq> Rejected () \<and>
    CheckoutLinesInfoByCheckoutTokenLoader_load_many env keys \<noteq> Rejected () \<and>
    AppByIdLoader_load_many env (map app_id (get_webhooks_for_event env)) \<noteq> Rejected () \<and>
    (CheckoutInfoByCheckoutTokenLoader_load_many env keys = Pending \<or>
     CheckoutLinesInfoByCheckoutTokenLoader_load_many env keys = Pending \<or>
     AppByIdLoader_load_many env (map app_id (get_webhooks_for_event env)) = Pending) \<longrightarrow>
    batch_load env keys = ([], Pending)) \<and>
   (CheckoutInfoByCheckoutTokenLoader_load_many env keys = Fulfilled cis \<and>
    CheckoutLinesInfoByCheckoutTokenLoader_load_many env keys = Fulfilled lis \<and>
    AppByIdLoader_load_many env (map app_id (get_webhooks_for_event env)) = Fulfilled aps \<longrightarrow>
    batch_load env keys = generate_payloads env keys (cis, lis, aps))"
  by (auto simp: batch_load_def Let_def split: promise.splits)

theorem dependency_join_witness:
  "CheckoutInfoByCheckoutTokenLoader_load_many failing_fetch_env [''c1'', ''c2''] = Rejected () \<and>
   batch_load failing_fetch_env [''c1'', ''c2''] = ([], Rejected DependencyFetchError) \<and>
   batch_load example_env [''c1'', ''c2''] =
     generate_payloads example_env [''c1'', ''c2'']
       ([\<lparr>checkout = \<lparr>pk = ''c1'', price_expiration = 50\<rparr>\<rparr>,
         \<lparr>checkout = \<lparr>pk = ''c2'', price_expiration = 200\<rparr>\<rparr>], [(), ()], [Some app_p])"
proof -
  have r: "CheckoutInfoByCheckoutTokenLoader_load_many failing_fetch_env [''c1'', ''c2''] = Rejected ()"
    by (simp add: failing_fetch_env_def)
  have fetched:
    "CheckoutInfoByCheckoutTokenLoader_load_many example_env [''c1'', ''c2''] =
       Fulfilled [\<lparr>checkout = \<lparr>pk = ''c1'', price_expiration = 50\<rparr>\<rparr>,
                  \<lparr>checkout = \<lparr>pk = ''c2'', price_expiration = 200\<rparr>\<rparr>]"
    "CheckoutLinesInfoByCheckoutTokenLoader_load_many example_env [''c1'', ''c2''] =
       Fulfilled [(), ()]"
    "AppByIdLoader_load_many example_env (map app_id (get_webhooks_for_event example_env)) =
       Fulfilled [Some app_p]"
    by (simp_all add: example_env_def app_p_def)
  show ?thesis
    using r fetched
      dependency_join[where env = failing_fetch_env and keys = "[''c1'', ''c2'']"]
      dependency_join[where env = example_env and keys = "[''c1'', ''c2'']"
        and cis = "[\<lparr>checkout = \<lparr>pk = ''c1'', price_expiration = 50\<rparr>\<rparr>,
                     \<lparr>checkout = \<lparr>pk = ''c2'', price_expiration = 200\<rparr>\<rparr>]"
        and lis = "[(), ()]" and aps = "[Some app_p]"]
    by simp
qed

text \<open>
  C9. If the app loader yields \<open>None\<close> for one of the app ids of the webhooks, the
  returned promise is rejected (with the \<open>AttributeError\<close> of \<open>app.id\<close>) and no call
  is issued, whatever the checkouts are: the app map is built before any checkout is
  looked at.
\<close>

theorem missing_app_fails:
  "CheckoutInfoByCheckoutTokenLoader_load_many env keys = Fulfilled cis \<Longrightarrow>
   CheckoutLinesInfoByCheckoutTokenLoader_load_many env keys = Fulfilled lis \<Longrightarrow>
   AppByIdLoader_load_many env (map app_id (get_webhooks_for_event env)) = Fulfilled aps \<Longrightarrow>
   None \<in> set aps \<Longrightarrow>
   batch_load env keys = ([], Rejected AttributeError)"
  by (simp add: batch_load_def generate_payloads_def apps_map_loop_None)

theorem missing_app_fails_witness:
  "AppByIdLoader_load_many missing_app_env (map app_id (get_webhooks_for_event missing_app_env)) =
     Fulfilled [None] \<and>
   None \<in> set [None :: App option] \<and>
   tax_strategy_of missing_app_env \<lparr>checkout = \<lparr>pk = ''c2'', price_expiration = 200\<rparr>\<rparr> () = TAX_APP \<and>
   \<not> price_expiration (checkout \<lparr>checkout = \<lparr>pk = ''c2'', price_expiration = 200\<rparr>\<rparr>)
       \<le> timezone_now missing_app_env 0 \<and>
   batch_load missing_app_env [''c2''] = ([], Rejected AttributeError)"
proof -
  have fetched:
    "CheckoutInfoByCheckoutTokenLoader_load_many missing_app_env [''c2''] =
       Fulfilled [\<lparr>checkout = \<lparr>pk = ''c2'', price_expiration = 200\<rparr>\<rparr>]"
    "CheckoutLinesInfoByCheckoutTokenLoader_load_many missing_app_env [''c2''] = Fulfilled [()]"
    "AppByIdLoader_load_many missing_app_env
       (map app_id (get_webhooks_for_event missing_app_env)) = Fulfilled [None]"
    by (simp_all add: missing_app_env_def example_env_def)
  have n: "None \<in> set [None :: App option]" by simp
  show ?thesis
    using fetched(3) missing_app_fails[OF fetched n]
    by (simp add: missing_app_env_def example_env_def tax_strategy_of_def)
qed

lemma evaluate_checkout_calls:
  assumes "c \<in> set (fst (evaluate_checkout env apps_map i ci li))"
  shows "tax_strategy_of env ci li = TAX_APP"
    and "price_expiration (checkout ci) \<le> timezone_now env i"
    and "subscribable_object c = checkout ci"
    and "checkout_token c = str env (pk (checkout ci))"
proof -
  have e: "tax_strategy_of env ci li = TAX_APP \<and>
           price_expiration (checkout ci) \<le> timezone_now env i"
    using assms evaluate_checkout_gate[of env ci li i apps_map] by fastforce
  then show "tax_strategy_of env ci li = TAX_APP"
    and "price_expiration (checkout ci) \<le> timezone_now env i" by simp_all
  from e assms
  have "c \<in> set (fst (webhooks_loop env apps_map (checkout ci)
                        (tax_app_identifier_of env ci li) (get_webhooks_for_event env)))"
    by (simp add: evaluate_checkout_selected)
  then show "subscribable_object c = checkout ci"
    and "checkout_token c = str env (pk (checkout ci))"
    by (simp_all add: webhooks_loop_calls)
qed

text \<open>
  C2. A checkout whose tax strategy is not the tax app strategy, or whose price has not
  expired when it is evaluated, issues no call, whatever the webhooks are; and every
  call that \<open>batch_load\<close> issues has as its subject a fetched checkout whose strategy
  is the tax app strategy and whose price expiration is not later than the clock read
  at its evaluation.
\<close>

theorem staleness_gate:
  "(\<not> (tax_strategy_of env ci li = TAX_APP \<and>
        price_expiration (checkout ci) \<le> timezone_now env i) \<longrightarrow>
    evaluate_checkout env apps_map i ci li = ([], None)) \<and>
   (c \<in> set (fst (batch_load env keys)) \<longrightarrow>
    (\<exists>cis lis j.
       CheckoutInfoByCheckoutTokenLoader_load_many env keys = Fulfilled cis \<and>
       CheckoutLinesInfoByCheckoutTokenLoader_load_many env keys = Fulfilled lis \<and>
       j < length cis \<and> j < length lis \<and>
       tax_strategy_of env (cis ! j) (lis ! j) = TAX_APP \<and>
       price_expiration (checkout (cis ! j)) \<le> timezone_now env j \<and>
       subscribable_object c = checkout (cis ! j) \<and>
       checkout_token c = str env (pk (checkout (cis ! j)))))"
proof (intro conjI impI)
  assume "\<not> (tax_strategy_of env ci li = TAX_APP \<and>
        price_expiration (checkout ci) \<le> timezone_now env i)"
  then show "evaluate_checkout env apps_map i ci li = ([], None)"
    by (rule evaluate_checkout_gate)
next
  assume "c \<in> set (fst (batch_load env keys))"
  from batch_load_issued[OF this] obtain cis lis aps am where
    f: "CheckoutInfoByCheckoutTokenLoader_load_many env keys = Fulfilled cis"
       "CheckoutLinesInfoByCheckoutTokenLoader_load_many env keys = Fulfilled lis"
    and c: "c \<in> set (fst (checkouts_loop env am 0 (zip cis lis)))"
    by blast
  from checkouts_loop_calls[OF c] obtain j where j: "j < length (zip cis lis)"
    and cj: "c \<in> set (fst (evaluate_checkout env am (0 + j)
                (fst (zip cis lis ! j)) (snd (zip cis lis ! j))))"
    by blast
  from j have jl: "j < length cis" "j < length lis" by simp_all
  with cj have "c \<in> set (fst (evaluate_checkout env am j (cis ! j) (lis ! j)))" by simp
  from evaluate_checkout_calls[OF this] f jl
  show "\<exists>cis lis j.
       CheckoutInfoByCheckoutTokenLoader_load_many env keys = Fulfilled cis \<and>
       CheckoutLinesInfoByCheckoutTokenLoader_load_many env keys = Fulfilled lis \<and>
       j < length cis \<and> j < length lis \<and>
       tax_strategy_of env (cis ! j) (lis ! j) = TAX_APP \<and>
       price_expiration (checkout (cis ! j)) \<le> timezone_now env j \<and>
       subscribable_object c = checkout (cis ! j) \<and>
       checkout_token c = str env (pk (checkout (cis ! j)))"
    by blast
qed

theorem staleness_gate_witness:
  "\<not> (tax_strategy_of (two_candidates_env None)
          \<lparr>checkout = \<lparr>pk = ''c2'', price_expiration = 200\<rparr>\<rparr> () = TAX_APP \<and>
       price_expiration (checkout \<lparr>checkout = \<lparr>pk = ''c2'', price_expiration = 200\<rparr>\<rparr>)
         \<le> timezone_now (two_candidates_env None) 1) \<and>
   evaluate_checkout (two_candidates_env None) [7 \<mapsto> app_p, 8 \<mapsto> app_q] 1
     \<lparr>checkout = \<lparr>pk = ''c2'', price_expiration = 200\<rparr>\<rparr> () = ([], None) \<and>
   fst (batch_load (two_candidates_env None) [''c1'', ''c2'']) =
     [example_call webhook_p app_p, example_call webhook_q app_q] \<and>
   example_call webhook_p app_p \<in> set (fst (batch_load (two_candidates_env None) [''c1'', ''c2''])) \<and>
   (\<exists>cis lis j.
       CheckoutInfoByCheckoutTokenLoader_load_many (two_candidates_env None) [''c1'', ''c2''] =
         Fulfilled cis \<and>
       CheckoutLinesInfoByCheckoutTokenLoader_load_many (two_candidates_env None) [''c1'', ''c2''] =
         Fulfilled lis \<and>
       j < length cis \<and> j < length lis \<and>
       tax_strategy_of (two_candidates_env None) (cis ! j) (lis ! j) = TAX_APP \<and>
       price_expiration (checkout (cis ! j)) \<le> timezone_now (two_candidates_env None) j \<and>
       subscribable_object (example_call webhook_p app_p) = checkout (cis ! j) \<and>
       checkout_token (example_call webhook_p app_p) =
         str (two_candidates_env None) (pk (checkout (cis ! j))))"
proof -
  have g: "\<not> (tax_strategy_of (two_candidates_env None)
          \<lparr>checkout = \<lparr>pk = ''c2'', price_expiration = 200\<rparr>\<rparr> () = TAX_APP \<and>
       price_expiration (checkout \<lparr>checkout = \<lparr>pk = ''c2'', price_expiration = 200\<rparr>\<rparr>)
         \<le> timezone_now (two_candidates_env None) 1)"
    by (simp add: two_candidates_env_def example_env_def)
  have run: "fst (batch_load (two_candidates_env None) [''c1'', ''c2'']) =
     [example_call webhook_p app_p, example_call webhook_q app_q]"
    by (simp add: two_candidates_env_def example_simps)
  then have m: "example_call webhook_p app_p \<in>
      set (fst (batch_load (two_candidates_env None) [''c1'', ''c2'']))"
    by simp
  note a = staleness_gate[where env = "two_candidates_env None"
      and ci = "\<lparr>checkout = \<lparr>pk = ''c2'', price_expiration = 200\<rparr>\<rparr>" and li = "()" and i = 1
      and apps_map = "[7 \<mapsto> app_p, 8 \<mapsto> app_q]", THEN conjunct1, THEN mp, OF g]
  note b = staleness_gate[where env = "two_candidates_env None" and keys = "[''c1'', ''c2'']"
      and c = "example_call webhook_p app_p", THEN conjunct2, THEN mp, OF m]
  from g a run m b show ?thesis by (intro conjI)
qed

lemma checkouts_loop_concat:
  "checkouts_loop env apps_map i xs = (ps, None) \<Longrightarrow>
   ps = concat (map (\<lambda>(j, ci, li). fst (evaluate_checkout env apps_map j ci li))
                 (enumerate i xs))"
proof (induction xs arbitrary: i ps)
  case Nil
  then show ?case by simp
next
  case (Cons x xs)
  obtain ci li where x: "x = (ci, li)" by (cases x)
  obtain cs e where ev: "evaluate_checkout env apps_map i ci li = (cs, e)"
    by (cases "evaluate_checkout env apps_map i ci li")
  obtain cs' e' where cl: "checkouts_loop env apps_map (Suc i) xs = (cs', e')"
    by (cases "checkouts_loop env apps_map (Suc i) xs")
  from Cons.prems x ev cl have "e = None" "e' = None" "ps = cs @ cs'"
    by (auto split: option.splits)
  with Cons.IH[of "Suc i" cs'] cl ev x show ?case by simp
qed

text \<open>
  C3. For an eligible checkout, with every webhook's app loaded, the calls issued are
  the calls of exactly the webhooks that the selection rule of the specification
  selects, in webhook order: the query is present (not \<open>None\<close>, not empty) and either
  no preferred identifier is configured (\<open>None\<close> or empty) or the identifier of the
  webhook's app equals it. The calls of a fulfilled \<open>batch_load\<close> are those of its
  checkouts, in checkout order.
\<close>

theorem preference_tie_break:
  "(tax_strategy_of env ci li = TAX_APP \<and>
    price_expiration (checkout ci) \<le> timezone_now env i \<and>
    (\<forall>w \<in> set (get_webhooks_for_event env). apps_map (app_id w) \<noteq> None) \<longrightarrow>
    evaluate_checkout env apps_map i ci li =
      (map (\<lambda>w. issue_call env (checkout ci) w (the (apps_map (app_id w)))
                  (the (subscription_query w)))
         (filter (\<lambda>w. spec_selected (tax_app_identifier_of env ci li)
                          (the (apps_map (app_id w))) w)
            (get_webhooks_for_event env)), None)) \<and>
   (batch_load env keys = (ps, Fulfilled rs) \<longrightarrow>
    (\<exists>cis lis aps apps_map.
       CheckoutInfoByCheckoutTokenLoader_load_many env keys = Fulfilled cis \<and>
       CheckoutLinesInfoByCheckoutTokenLoader_load_many env keys = Fulfilled lis \<and>
       AppByIdLoader_load_many env (map app_id (get_webhooks_for_event env)) = Fulfilled aps \<and>
       apps_map_loop Map.empty aps = Inr apps_map \<and>
       ps = concat (map (\<lambda>(j, ci, li). fst (evaluate_checkout env apps_map j ci li))
                     (enumerate 0 (zip cis lis)))))"
proof (intro conjI impI)
  assume "tax_strategy_of env ci li = TAX_APP \<and>
    price_expiration (checkout ci) \<le> timezone_now env i \<and>
    (\<forall>w \<in> set (get_webhooks_for_event env). apps_map (app_id w) \<noteq> None)"
  then show "evaluate_checkout env apps_map i ci li =
      (map (\<lambda>w. issue_call env (checkout ci) w (the (apps_map (app_id w)))
                  (the (subscription_query w)))
         (filter (\<lambda>w. spec_selected (tax_app_identifier_of env ci li)
                          (the (apps_map (app_id w))) w)
            (get_webhooks_for_event env)), None)"
    by (simp add: evaluate_checkout_selected webhooks_loop_present)
next
  assume "batch_load env keys = (ps, Fulfilled rs)"
  then show "\<exists>cis lis aps apps_map.
       CheckoutInfoByCheckoutTokenLoader_load_many env keys = Fulfilled cis \<and>
       CheckoutLinesInfoByCheckoutTokenLoader_load_many env keys = Fulfilled lis \<and>
       AppByIdLoader_load_many env (map app_id (get_webhooks_for_event env)) = Fulfilled aps \<and>
       apps_map_loop Map.empty aps = Inr apps_map \<and>
       ps = concat (map (\<lambda>(j, ci, li). fst (evaluate_checkout env apps_map j ci li))
                     (enumerate 0 (zip cis lis)))"
    by (auto simp: batch_load_def generate_payloads_def Let_def
             split: promise.splits sum.splits prod.splits option.splits if_splits
             dest!: checkouts_loop_concat)
qed

theorem preference_tie_break_witness:
  "evaluate_checkout (two_candidates_env (Some ''tax.p'')) [7 \<mapsto> app_p, 8 \<mapsto> app_q] 0
     \<lparr>checkout = \<lparr>pk = ''c1'', price_expiration = 50\<rparr>\<rparr> () =
     ([example_call webhook_p app_p], None) \<and>
   evaluate_checkout (two_candidates_env None) [7 \<mapsto> app_p, 8 \<mapsto> app_q] 0
     \<lparr>checkout = \<lparr>pk = ''c1'', price_expiration = 50\<rparr>\<rparr> () =
     ([example_call webhook_p app_p, example_call webhook_q app_q], None) \<and>
   batch_load (two_candidates_env (Some ''tax.p'')) [''c1''] =
     ([example_call webhook_p app_p],
      Fulfilled [[7 \<mapsto> [''h1'' \<mapsto> PDict [(''amount'', 10)]]]]) \<and>
   (\<exists>cis lis aps apps_map.
       CheckoutInfoByCheckoutTokenLoader_load_many (two_candidates_env (Some ''tax.p'')) [''c1''] =
         Fulfilled cis \<and>
       CheckoutLinesInfoByCheckoutTokenLoader_load_many (two_candidates_env (Some ''tax.p''))
         [''c1''] = Fulfilled lis \<and>
       AppByIdLoader_load_many (two_candidates_env (Some ''tax.p''))
         (map app_id (get_webhooks_for_event (two_candidates_env (Some ''tax.p'')))) =
         Fulfilled aps \<and>
       apps_map_loop Map.empty aps = Inr apps_map \<and>
       [example_call webhook_p app_p] =
         concat (map (\<lambda>(j, ci, li).
                        fst (evaluate_checkout (two_candidates_env (Some ''tax.p'')) apps_map j ci li))
                   (enumerate 0 (zip cis lis))))"
proof -
  have run: "batch_load (two_candidates_env (Some ''tax.p'')) [''c1''] =
     ([example_call webhook_p app_p],
      Fulfilled [[7 \<mapsto> [''h1'' \<mapsto> PDict [(''amount'', 10)]]]])"
    by (simp add: two_candidates_env_def example_simps)
  note c = preference_tie_break[where env = "two_candidates_env (Some ''tax.p'')"
      and keys = "[''c1'']", THEN conjunct2, THEN mp, OF run]
  have h: "tax_strategy_of (two_candidates_env pref)
             \<lparr>checkout = \<lparr>pk = ''c1'', price_expiration = 50\<rparr>\<rparr> () = TAX_APP \<and>
    price_expiration (checkout \<lparr>checkout = \<lparr>pk = ''c1'', price_expiration = 50\<rparr>\<rparr>)
      \<le> timezone_now (two_candidates_env pref) 0 \<and>
    (\<forall>w \<in> set (get_webhooks_for_event (two_candidates_env pref)).
        [7 \<mapsto> app_p, 8 \<mapsto> app_q] (app_id w) \<noteq> None)" for pref
    by (simp add: two_candidates_env_def example_env_def tax_strategy_of_def
          webhook_p_def webhook_q_def)
  note a = preference_tie_break[where env = "two_candidates_env (Some ''tax.p'')"
      and ci = "\<lparr>checkout = \<lparr>pk = ''c1'', price_expiration = 50\<rparr>\<rparr>" and li = "()" and i = 0
      and apps_map = "[7 \<mapsto> app_p, 8 \<mapsto> app_q]", THEN conjunct1, THEN mp, OF h]
  note b = preference_tie_break[where env = "two_candidates_env None"
      and ci = "\<lparr>checkout = \<lparr>pk = ''c1'', price_expiration = 50\<rparr>\<rparr>" and li = "()" and i = 0
      and apps_map = "[7 \<mapsto> app_p, 8 \<mapsto> app_q]", THEN conjunct1, THEN mp, OF h]
  from a have a': "evaluate_checkout (two_candidates_env (Some ''tax.p''))
     [7 \<mapsto> app_p, 8 \<mapsto> app_q] 0
     \<lparr>checkout = \<lparr>pk = ''c1'', price_expiration = 50\<rparr>\<rparr> () =
     ([example_call webhook_p app_p], None)"
    by (simp add: two_candidates_env_def example_env_def tax_app_identifier_of_def
          spec_selected_def webhook_p_def webhook_q_def app_p_def app_q_def
          example_call_def issue_call_def)
  from b have b': "evaluate_checkout (two_candidates_env None)
     [7 \<mapsto> app_p, 8 \<mapsto> app_q] 0
     \<lparr>checkout = \<lparr>pk = ''c1'', price_expiration = 50\<rparr>\<rparr> () =
     ([example_call webhook_p app_p, example_call webhook_q app_q], None)"
    by (simp add: two_candidates_env_def example_env_def tax_app_identifier_of_def
          spec_selected_def webhook_p_def webhook_q_def app_p_def app_q_def
          example_call_def issue_call_def)
  from a' b' run c show ?thesis by (intro conjI)
qed













lemma webhooks_loop_keys:
  "c \<in> set (fst (webhooks_loop env apps_map co tid ws)) \<Longrightarrow>
   \<exists>w \<in> set ws. call_app_id c = app_id w \<and>
      Some (query_hash c) = map_option (get_subscription_query_hash env) (subscription_query w)"
  by (induction ws arbitrary: c)
     (auto simp: issue_call_def split: option.splits prod.splits if_splits)

lemma webhooks_loop_distinct:
  "distinct (map (\<lambda>w. (app_id w,
       map_option (get_subscription_query_hash env) (subscription_query w))) ws) \<Longrightarrow>
   distinct (map call_triple (fst (webhooks_loop env apps_map co tid ws)))"
proof (induction ws)
  case Nil
  then show ?case by simp
next
  case (Cons w ws)
  let ?key = "\<lambda>w. (app_id w, map_option (get_subscription_query_hash env) (subscription_query w))"
  from Cons have IH: "distinct (map call_triple (fst (webhooks_loop env apps_map co tid ws)))"
    by simp
  have fresh: "call_triple (issue_call env co w app query) \<notin>
        call_triple ` set (fst (webhooks_loop env apps_map co tid ws))"
    if q: "subscription_query w = Some query" for app query
  proof
    assume "call_triple (issue_call env co w app query) \<in>
        call_triple ` set (fst (webhooks_loop env apps_map co tid ws))"
    then obtain c where c: "c \<in> set (fst (webhooks_loop env apps_map co tid ws))"
      and eq: "call_triple c = call_triple (issue_call env co w app query)" by auto
    from webhooks_loop_keys[OF c] obtain w' where w': "w' \<in> set ws"
      "call_app_id c = app_id w'"
      "Some (query_hash c) = map_option (get_subscription_query_hash env) (subscription_query w')"
      by blast
    from eq have "call_app_id c = app_id w" "query_hash c = get_subscription_query_hash env query"
      by (simp_all add: call_triple_def issue_call_def)
    with w' q have "?key w = ?key w'" by simp
    then have "?key w \<in> ?key ` set ws" using w'(1) by (rule image_eqI)
    moreover from Cons.prems have "?key w \<notin> ?key ` set ws" by simp
    ultimately show False by contradiction
  qed
  show ?case
  proof (cases "apps_map (app_id w)")
    case None
    then show ?thesis by simp
  next
    case (Some app)
    note app = this
    obtain cs e where r: "webhooks_loop env apps_map co tid ws = (cs, e)"
      by (cases "webhooks_loop env apps_map co tid ws")
    from IH r have dcs: "distinct (map call_triple cs)" by simp
    show ?thesis
    proof (cases "subscription_query w")
      case None
      with app r dcs show ?thesis by simp
    next
      case (Some query)
      from fresh[OF Some, of app] r
      have nin: "call_triple (issue_call env co w app query) \<notin> call_triple ` set cs"
        by simp
      show ?thesis
      proof (cases "query \<noteq> [] \<and>
                     (\<not> truthy_str tid \<or> identifier app = tid)")
        case True
        then have "fst (webhooks_loop env apps_map co tid (w # ws)) =
                   issue_call env co w app query # cs"
          using app Some r by simp
        with dcs nin show ?thesis by simp
      next
        case False
        then have "fst (webhooks_loop env apps_map co tid (w # ws)) = cs"
          using app Some r by auto
        with dcs show ?thesis by simp
      qed
    qed
  qed
qed

lemma evaluate_checkout_distinct:
  "distinct (map (\<lambda>w. (app_id w,
       map_option (get_subscription_query_hash env) (subscription_query w)))
     (get_webhooks_for_event env)) \<Longrightarrow>
   distinct (map call_triple (fst (evaluate_checkout env apps_map i ci li)))"
  by (cases "tax_strategy_of env ci li = TAX_APP \<and>
             price_expiration (checkout ci) \<le> timezone_now env i")
     (simp_all add: evaluate_checkout_gate evaluate_checkout_selected webhooks_loop_distinct)

lemma checkouts_loop_tokens:
  assumes "c \<in> set (fst (checkouts_loop env apps_map i xs))"
  shows "checkout_token c \<in> (\<lambda>x. str env (pk (checkout (fst x)))) ` set xs"
proof -
  from checkouts_loop_calls[OF assms] obtain j where j: "j < length xs"
    "c \<in> set (fst (evaluate_checkout env apps_map (i + j) (fst (xs ! j)) (snd (xs ! j))))"
    by blast
  from evaluate_checkout_calls(4)[OF j(2)] j(1) show ?thesis
    by (metis imageI nth_mem)
qed

lemma checkouts_loop_distinct:
  assumes w: "distinct (map (\<lambda>w. (app_id w,
       map_option (get_subscription_query_hash env) (subscription_query w)))
     (get_webhooks_for_event env))"
  shows "distinct (map (\<lambda>x. str env (pk (checkout (fst x)))) xs) \<Longrightarrow>
   distinct (map call_triple (fst (checkouts_loop env apps_map i xs)))"
proof (induction xs arbitrary: i)
  case Nil
  then show ?case by simp
next
  case (Cons x xs)
  obtain ci li where x: "x = (ci, li)" by (cases x)
  obtain cs e where ev: "evaluate_checkout env apps_map i ci li = (cs, e)"
    by (cases "evaluate_checkout env apps_map i ci li")
  obtain cs' e' where cl: "checkouts_loop env apps_map (Suc i) xs = (cs', e')"
    by (cases "checkouts_loop env apps_map (Suc i) xs")
  from evaluate_checkout_distinct[OF w, of apps_map i ci li] ev
  have d1: "distinct (map call_triple cs)" by simp
  from Cons.IH[of "Suc i"] Cons.prems cl have d2: "distinct (map call_triple cs')" by simp
  have t1: "\<forall>c \<in> set cs. checkout_token c = str env (pk (checkout ci))"
    using evaluate_checkout_calls(4)[of _ env apps_map i ci li] ev by simp
  have notin: "str env (pk (checkout ci)) \<notin> (\<lambda>x. str env (pk (checkout (fst x)))) ` set xs"
    using Cons.prems x by simp
  have t2: "\<forall>c \<in> set cs'. checkout_token c \<noteq> str env (pk (checkout ci))"
  proof
    fix c assume "c \<in> set cs'"
    with cl have "c \<in> set (fst (checkouts_loop env apps_map (Suc i) xs))" by simp
    from checkouts_loop_tokens[OF this] notin
    show "checkout_token c \<noteq> str env (pk (checkout ci))" by metis
  qed
  from t1 t2 have "call_triple ` set cs \<inter> call_triple ` set cs' = {}"
    by (auto simp: call_triple_def)
  with d1 d2 have "distinct (map call_triple (cs @ cs'))" by simp
  with d1 x ev cl show ?case by (auto split: option.splits)
qed

lemma batch_load_calls:
  "fst (batch_load env keys) = [] \<or>
   (\<exists>cis lis aps am.
      CheckoutInfoByCheckoutTokenLoader_load_many env keys = Fulfilled cis \<and>
      CheckoutLinesInfoByCheckoutTokenLoader_load_many env keys = Fulfilled lis \<and>
      AppByIdLoader_load_many env (map app_id (get_webhooks_for_event env)) = Fulfilled aps \<and>
      apps_map_loop Map.empty aps = Inr am \<and>
      fst (batch_load env keys) = fst (checkouts_loop env am 0 (zip cis lis)))"
proof (cases "CheckoutInfoByCheckoutTokenLoader_load_many env keys")
  case (Fulfilled cis)
  note c = this
  show ?thesis
  proof (cases "CheckoutLinesInfoByCheckoutTokenLoader_load_many env keys")
    case (Fulfilled lis)
    note l = this
    show ?thesis
    proof (cases "AppByIdLoader_load_many env (map app_id (get_webhooks_for_event env))")
      case (Fulfilled aps)
      note a = this
      show ?thesis
      proof (cases "apps_map_loop Map.empty aps")
        case (Inl e)
        with c l a show ?thesis by (simp add: batch_load_def generate_payloads_def)
      next
        case (Inr am)
        obtain ps e where cl: "checkouts_loop env am 0 (zip cis lis) = (ps, e)"
          by (cases "checkouts_loop env am 0 (zip cis lis)")
        with c l a Inr have "fst (batch_load env keys) = ps"
          by (cases e) (simp_all add: batch_load_def generate_payloads_def)
        with c l a Inr cl show ?thesis by simp
      qed
    qed (simp_all add: batch_load_def c l)
  qed (simp_all add: batch_load_def c)
qed (simp_all add: batch_load_def)

lemma batch_load_distinct:
  assumes "CheckoutInfoByCheckoutTokenLoader_load_many env keys = Fulfilled cis"
      and "distinct (map (\<lambda>ci. str env (pk (checkout ci))) cis)"
      and w: "distinct (map (\<lambda>w. (app_id w,
             map_option (get_subscription_query_hash env) (subscription_query w)))
           (get_webhooks_for_event env))"
  shows "distinct (map call_triple (fst (batch_load env keys)))"
proof -
  have z: "distinct (map (\<lambda>x. str env (pk (checkout (fst x)))) (zip cis lis))"
    for lis :: "'c list"
  proof -
    have "map (\<lambda>x. str env (pk (checkout (fst x)))) (zip cis lis) =
          map (\<lambda>ci. str env (pk (checkout ci))) (map fst (zip cis lis))"
      by simp
    also have "\<dots> = take (min (length cis) (length lis))
                        (map (\<lambda>ci. str env (pk (checkout ci))) cis)"
      by (simp only: map_fst_zip_take take_map)
    finally show ?thesis using assms(2) by simp
  qed
  from batch_load_calls[of env keys] show ?thesis
  proof
    assume "fst (batch_load env keys) = []"
    then show ?thesis by simp
  next
    assume "\<exists>cis lis aps am.
      CheckoutInfoByCheckoutTokenLoader_load_many env keys = Fulfilled cis \<and>
      CheckoutLinesInfoByCheckoutTokenLoader_load_many env keys = Fulfilled lis \<and>
      AppByIdLoader_load_many env (map app_id (get_webhooks_for_event env)) = Fulfilled aps \<and>
      apps_map_loop Map.empty aps = Inr am \<and>
      fst (batch_load env keys) = fst (checkouts_loop env am 0 (zip cis lis))"
    then obtain cis' lis am where
      c: "CheckoutInfoByCheckoutTokenLoader_load_many env keys = Fulfilled cis'"
      and f: "fst (batch_load env keys) = fst (checkouts_loop env am 0 (zip cis' lis))"
      by blast
    from c assms(1) have "cis' = cis" by simp
    with f checkouts_loop_distinct[OF w z, of am 0 lis] show ?thesis by simp
  qed
qed

lemma batch_load_stored:
  assumes bl: "batch_load env keys = (ps, Fulfilled rs)"
      and d: "distinct (map call_triple ps)"
      and j: "j < length ps"
      and g: "generate_payload_promise_from_subscription env j (ps ! j) = Fulfilled p"
      and t: "truthy_payload p"
  shows "payload_at (run_stores Map.empty (completed_stores env ps)) (call_triple (ps ! j)) = Some p"
    and "i < length keys \<Longrightarrow> str env (keys ! i) = checkout_token (ps ! j) \<Longrightarrow>
         defaultdict_get (rs ! i) (call_app_id (ps ! j)) (query_hash (ps ! j)) = Some p"
proof -
  from j g have "(ps ! j, p) \<in> set (completed_stores env ps)"
    by (auto simp: completed_stores_mem)
  from payload_at_run_stores_distinct[OF completed_stores_distinct[OF d] this t]
  show s: "payload_at (run_stores Map.empty (completed_stores env ps)) (call_triple (ps ! j)) = Some p" .
  assume "i < length keys" "str env (keys ! i) = checkout_token (ps ! j)"
  with batch_load_shape(2)[OF bl] s
  show "defaultdict_get (rs ! i) (call_app_id (ps ! j)) (query_hash (ps ! j)) = Some p"
    by (simp add: payload_at_def call_triple_def)
qed

text \<open>
  C6, as amended. A truthy payload is stored under exactly the triple (checkout token,
  app id, query hash) its callback captured, and no other triple changes. When the
  fetched checkouts have pairwise distinct tokens and the webhooks have pairwise
  distinct pairs of app id and query hash, the issued calls have pairwise distinct
  triples; and when the triples of the issued calls are pairwise distinct, the result
  holds the truthy payload of every call under the triple of that call, in whatever
  order the calls complete.
\<close>

theorem stored_under_captured_triple:
  "(truthy_payload p \<longrightarrow>
      payload_at (store_payload results p tok aid qh) (tok, aid, qh) = Some p \<and>
      (\<forall>k. k \<noteq> (tok, aid, qh) \<longrightarrow>
         payload_at (store_payload results p tok aid qh) k = payload_at results k)) \<and>
   (CheckoutInfoByCheckoutTokenLoader_load_many env keys = Fulfilled cis \<and>
    distinct (map (\<lambda>ci. str env (pk (checkout ci))) cis) \<and>
    distinct (map (\<lambda>w. (app_id w,
        map_option (get_subscription_query_hash env) (subscription_query w)))
      (get_webhooks_for_event env)) \<longrightarrow>
    distinct (map call_triple (fst (batch_load env keys)))) \<and>
   (batch_load env keys = (ps, Fulfilled rs) \<and> distinct (map call_triple ps) \<and>
    j < length ps \<and>
    generate_payload_promise_from_subscription env j (ps ! j) = Fulfilled q \<and>
    truthy_payload q \<longrightarrow>
    payload_at (run_stores Map.empty (completed_stores env ps)) (call_triple (ps ! j)) = Some q \<and>
    (\<forall>i < length keys. str env (keys ! i) = checkout_token (ps ! j) \<longrightarrow>
       defaultdict_get (rs ! i) (call_app_id (ps ! j)) (query_hash (ps ! j)) = Some q))"
proof (intro conjI impI allI)
  assume "truthy_payload p"
  then show "payload_at (store_payload results p tok aid qh) (tok, aid, qh) = Some p"
    by (simp add: payload_at_store)
next
  fix k assume "k \<noteq> (tok, aid, qh)"
  then show "payload_at (store_payload results p tok aid qh) k = payload_at results k"
    by (simp add: payload_at_store)
next
  assume "CheckoutInfoByCheckoutTokenLoader_load_many env keys = Fulfilled cis \<and>
    distinct (map (\<lambda>ci. str env (pk (checkout ci))) cis) \<and>
    distinct (map (\<lambda>w. (app_id w,
        map_option (get_subscription_query_hash env) (subscription_query w)))
      (get_webhooks_for_event env))"
  then show "distinct (map call_triple (fst (batch_load env keys)))"
    using batch_load_distinct[of env keys cis] by blast
next
  assume a: "batch_load env keys = (ps, Fulfilled rs) \<and> distinct (map call_triple ps) \<and>
    j < length ps \<and>
    generate_payload_promise_from_subscription env j (ps ! j) = Fulfilled q \<and>
    truthy_payload q"
  then show "payload_at (run_stores Map.empty (completed_stores env ps))
               (call_triple (ps ! j)) = Some q"
    using batch_load_stored(1)[of env keys ps rs j q] by blast
  fix i assume "i < length keys" "str env (keys ! i) = checkout_token (ps ! j)"
  with a show "defaultdict_get (rs ! i) (call_app_id (ps ! j)) (query_hash (ps ! j)) = Some q"
    using batch_load_stored(2)[of env keys ps rs j q i] by blast
qed

text \<open>
  C6 as stated fails: with two webhooks of one app that carry the same subscription
  query, one eligible checkout issues two calls with the same triple.
\<close>

theorem sibling_calls_same_triple_counterexample:
  "fst (batch_load duplicate_env [''c1'']) =
     [example_call webhook_p app_p, example_call webhook_p app_p] \<and>
   call_triple (fst (batch_load duplicate_env [''c1'']) ! 0) = (''c1'', 7, ''h1'') \<and>
   call_triple (fst (batch_load duplicate_env [''c1'']) ! 1) = (''c1'', 7, ''h1'') \<and>
   \<not> distinct (map call_triple (fst (batch_load duplicate_env [''c1''])))"
proof -
  have "fst (batch_load duplicate_env [''c1'']) =
     [example_call webhook_p app_p, example_call webhook_p app_p]"
    by (simp add: duplicate_env_def example_simps)
  moreover have "call_triple (example_call webhook_p app_p) = (''c1'', 7, ''h1'')"
    by (simp add: call_triple_def example_call_def issue_call_def example_env_def webhook_p_def)
  ultimately show ?thesis by simp
qed

theorem stored_under_captured_triple_witness:
  "truthy_payload (PDict [(''amount'', 10 :: int)]) \<and>
   payload_at (store_payload Map.empty (PDict [(''amount'', 10 :: int)]) ''c1'' 7 ''h1'')
     (''c1'', 7, ''h1'') = Some (PDict [(''amount'', 10)]) \<and>
   distinct (map call_triple (fst (batch_load (two_candidates_env None) [''c1'', ''c2'']))) \<and>
   batch_load example_env [''c1'', ''c2''] =
     ([example_call webhook_p app_p],
      Fulfilled [[7 \<mapsto> [''h1'' \<mapsto> PDict [(''amount'', 10)]]], Map.empty]) \<and>
   payload_at (run_stores Map.empty (completed_stores example_env [example_call webhook_p app_p]))
     (call_triple ([example_call webhook_p app_p] ! 0)) = Some (PDict [(''amount'', 10)])"
proof -
  have t: "truthy_payload (PDict [(''amount'', 10 :: int)])" by simp
  note a = stored_under_captured_triple
      [where p = "PDict [(''amount'', 10 :: int)]" and results = Map.empty
         and tok = "''c1''" and aid = 7 and qh = "''h1''",
       THEN conjunct1, THEN mp, OF t, THEN conjunct1]
  have d: "CheckoutInfoByCheckoutTokenLoader_load_many (two_candidates_env None) [''c1'', ''c2''] =
        Fulfilled [\<lparr>checkout = \<lparr>pk = ''c1'', price_expiration = 50\<rparr>\<rparr>,
                   \<lparr>checkout = \<lparr>pk = ''c2'', price_expiration = 200\<rparr>\<rparr>] \<and>
    distinct (map (\<lambda>ci. str (two_candidates_env None) (pk (checkout ci)))
       [\<lparr>checkout = \<lparr>pk = ''c1'', price_expiration = 50\<rparr>\<rparr>,
        \<lparr>checkout = \<lparr>pk = ''c2'', price_expiration = 200\<rparr>\<rparr>]) \<and>
    distinct (map (\<lambda>w. (app_id w,
        map_option (get_subscription_query_hash (two_candidates_env None)) (subscription_query w)))
      (get_webhooks_for_event (two_candidates_env None)))"
    by (simp add: two_candidates_env_def example_env_def webhook_p_def webhook_q_def)
  note b = stored_under_captured_triple
      [where env = "two_candidates_env None" and keys = "[''c1'', ''c2'']"
         and cis = "[\<lparr>checkout = \<lparr>pk = ''c1'', price_expiration = 50\<rparr>\<rparr>,
                     \<lparr>checkout = \<lparr>pk = ''c2'', price_expiration = 200\<rparr>\<rparr>]",
       THEN conjunct2, THEN conjunct1, THEN mp, OF d]
  have run: "batch_load example_env [''c1'', ''c2''] =
     ([example_call webhook_p app_p],
      Fulfilled [[7 \<mapsto> [''h1'' \<mapsto> PDict [(''amount'', 10)]]], Map.empty])"
    by (simp add: example_simps)
  have h: "batch_load example_env [''c1'', ''c2''] =
     ([example_call webhook_p app_p],
      Fulfilled [[7 \<mapsto> [''h1'' \<mapsto> PDict [(''amount'', 10)]]], Map.empty]) \<and>
    distinct (map call_triple [example_call webhook_p app_p]) \<and>
    0 < length [example_call webhook_p app_p] \<and>
    generate_payload_promise_from_subscription example_env 0
      ([example_call webhook_p app_p] ! 0) = Fulfilled (PDict [(''amount'', 10)]) \<and>
    truthy_payload (PDict [(''amount'', 10 :: int)])"
    using run by (simp add: example_env_def)
  note c = stored_under_captured_triple
      [where env = example_env and keys = "[''c1'', ''c2'']"
         and ps = "[example_call webhook_p app_p]"
         and rs = "[[7 \<mapsto> [''h1'' \<mapsto> PDict [(''amount'', 10)]]], Map.empty]"
         and j = 0 and q = "PDict [(''amount'', 10)]",
       THEN conjunct2, THEN conjunct2, THEN mp, OF h, THEN conjunct1]
  from t a b run c show ?thesis by (intro conjI)
qed

end
